theory Spec2Isabelle
  imports Main
begin

section \<open>Data model of the Analyze page (src/frontend-updated/src/pages/Analyze.tsx)\<close>

text \<open>
  The interfaces of Analyze.tsx as records. A JavaScript string is a \<open>string\<close>; an
  optional field is an \<open>option\<close>. Fields of \<open>Topic\<close> carry the prefix \<open>topic_\<close>
  (\<open>id\<close>, \<open>text\<close> and \<open>status\<close> are taken in HOL or by \<open>DocumentStatus\<close>), fields
  of the generate-content response the prefix \<open>gen_\<close>.
\<close>

record DocumentStatus =
  status :: string
  message :: string
  pages :: "int option"
  progress :: "int option"

record ScopeData =
  scope_text :: string
  source_pages :: "int list"
  is_confirmed :: bool
  is_complete :: "bool option"

record Topic =
  topic_id :: "int option"
  topic_number :: "string option"
  topic_text :: string
  topic_level :: "int option"
  topic_status :: "string option"
  topic_page :: "int option"
  topic_is_confirmed :: "bool option"

datatype chat_role = User | Assistant

record ChatMessage =
  role :: chat_role
  content :: string

text \<open>The data of a successful \<open>generateContentAPI\<close> response, \<open>{content, topic}\<close>.\<close>

record GenerateContentData =
  gen_content :: string
  gen_topic :: string

text \<open>
  The requests of \<open>@/lib/apiService\<close> that the page sends, with their arguments. The
  document id is passed on as the route gives it (\<open>docId!\<close>), so it stays an option.
\<close>

datatype remote_call =
    GetDocumentStatusAPI "string option"
  | ExtractDocumentScopeAPI "string option" bool
  | ConfirmDocumentScopeAPI "string option" "int list"
  | GenerateTopicsAPI "string option" string
  | GenerateContentAPI "string option" string string
  | ChatWithDocumentAPI "string option" string string "ChatMessage list"
  | SaveDocumentContentAPI "string option" int string

text \<open>The notifications of \<open>sonner\<close>: \<open>toast.success\<close>, \<open>toast.error\<close>, \<open>toast.info\<close>.\<close>

datatype toast = ToastSuccess string | ToastError string | ToastInfo string

text \<open>
  The state of the component: its \<open>useState\<close> and \<open>useRef\<close> cells under their own names,
  the entries of the query client that the page reads and writes (one map per query key
  family, keyed by the rest of the key; \<open>documentStatusCache\<close> holds the data of the
  status query, which the page sees as \<open>documentStatus\<close>), the observer of
  \<open>generateContentMutation\<close> (the number of mutations started through it, the last of
  which it follows, and the \<open>isPending\<close> it reports), and two logs: the notifications
  shown and the requests sent, oldest first. The two objects used as dictionaries are
  the maps of their own properties, from the topic text.
\<close>

record analyze =
  docId :: "string option"
  selectedTemplate :: string
  analysisStep :: nat
  scopeData :: "ScopeData option"
  generatedTopics :: "Topic list"
  generatedContent :: "string \<rightharpoonup> string"
  contentLoadingState :: "string \<rightharpoonup> bool"
  chatHistory :: "ChatMessage list"
  currentChatMessage :: string
  isBatchGeneratingRef :: bool
  isModalOpen :: bool
  currentTopicForModal :: "Topic option"
  modalContent :: string
  isGeneratingAll :: bool
  documentScopeCache :: "string option \<rightharpoonup> ScopeData"
  generatedTopicsCache :: "(string option \<times> string) \<rightharpoonup> Topic list"
  generatedContentCache :: "(string option \<times> string \<times> string) \<rightharpoonup> string"
  chatHistoryCache :: "(string option \<times> string) \<rightharpoonup> ChatMessage list"
  documentStatusCache :: "string option \<rightharpoonup> DocumentStatus"
  invalidated :: "(string \<times> string option) list"
  generateContentMutationCount :: nat
  generateContentIsPending :: bool
  toasts :: "toast list"
  calls :: "remote_call list"

subsection \<open>JavaScript truthiness and string helpers\<close>

text \<open>\<open>!!docId\<close>: the route parameter is present and not the empty string.\<close>

definition truthy_docId :: "string option \<Rightarrow> bool" where
  "truthy_docId d = (case d of None \<Rightarrow> False | Some x \<Rightarrow> x \<noteq> [])"

text \<open>\<open>!!topic.id\<close>: the number is present and not zero.\<close>

definition truthy_id :: "int option \<Rightarrow> bool" where
  "truthy_id i = (case i of None \<Rightarrow> False | Some n \<Rightarrow> n \<noteq> 0)"

text \<open>
  \<open>generatedContent\<close> and \<open>contentLoadingState\<close> are plain objects (\<open>{}\<close>, spread and a
  computed key), so a read \<open>obj[key]\<close> that finds no own property goes on to
  \<open>Object.prototype\<close>. These are the names it answers; what it answers (a function, or
  the prototype itself under \<open>__proto__\<close>) is truthy.
\<close>

definition object_prototype_names :: "string list" where
  "object_prototype_names =
     [''constructor'', ''hasOwnProperty'', ''isPrototypeOf'', ''propertyIsEnumerable'',
      ''toLocaleString'', ''toString'', ''valueOf'', ''__proto__'',
      ''__defineGetter__'', ''__defineSetter__'', ''__lookupGetter__'', ''__lookupSetter__'']"

text \<open>
  \<open>generatedContent[key]\<close> read as a condition: an own property that is not the empty
  string, or no own property and an inherited one.
\<close>

definition truthy_content :: "(string \<rightharpoonup> string) \<Rightarrow> string \<Rightarrow> bool" where
  "truthy_content m k =
     (case m k of None \<Rightarrow> k \<in> set object_prototype_names | Some c \<Rightarrow> c \<noteq> [])"

text \<open>
  \<open>contentLoadingState[key]\<close> read as a condition: an own property that is \<open>true\<close>, or
  no own property and an inherited one.
\<close>

definition truthy_loading :: "(string \<rightharpoonup> bool) \<Rightarrow> string \<Rightarrow> bool" where
  "truthy_loading m k =
     (case m k of None \<Rightarrow> k \<in> set object_prototype_names | Some b \<Rightarrow> b)"

text \<open>A topic key with content of its own in the map: a stored text that is not empty.\<close>

definition has_cached_content :: "(string \<rightharpoonup> string) \<Rightarrow> string \<Rightarrow> bool" where
  "has_cached_content m k = (case m k of None \<Rightarrow> False | Some c \<Rightarrow> c \<noteq> [])"

text \<open>
  \<open>String.prototype.trim\<close> removes white space and line terminators from both ends.
  Over 8-bit characters these are tab, line feed, vertical tab, form feed, carriage
  return, space and the no-break space.
\<close>

definition isWhiteSpace :: "char \<Rightarrow> bool" where
  "isWhiteSpace c = (c \<in> set [CHR 0x09, CHR 0x0A, CHR 0x0B, CHR 0x0C, CHR 0x0D, CHR 0x20, CHR 0xA0])"

definition trim :: "string \<Rightarrow> string" where
  "trim x = rev (dropWhile isWhiteSpace (rev (dropWhile isWhiteSpace x)))"

text \<open>A count inside a template literal: its decimal digits.\<close>

fun show_nat :: "nat \<Rightarrow> string" where
  "show_nat n =
     (if n < 10 then [char_of (n + 48)]
      else show_nat (n div 10) @ [char_of (n mod 10 + 48)])"

declare show_nat.simps [simp del]

definition add_toast :: "toast \<Rightarrow> analyze \<Rightarrow> analyze" where
  "add_toast t s = s\<lparr>toasts := toasts s @ [t]\<rparr>"

definition add_call :: "remote_call \<Rightarrow> analyze \<Rightarrow> analyze" where
  "add_call c s = s\<lparr>calls := calls s @ [c]\<rparr>"

section \<open>Status query and the effect on its result (lines 74-104)\<close>

text \<open>\<open>enabled: !!docId\<close>: the query fetches as soon as the page has a document id.\<close>

definition documentStatus_enabled :: "analyze \<Rightarrow> bool" where
  "documentStatus_enabled s = truthy_docId (docId s)"

definition documentStatus_queryFn :: "analyze \<Rightarrow> analyze" where
  "documentStatus_queryFn s = add_call (GetDocumentStatusAPI (docId s)) s"

text \<open>
  \<open>refetchInterval\<close>: from the last data of the query (none before the first answer) to
  the delay in milliseconds before the next fetch; \<open>None\<close> is the \<open>false\<close> that ends
  the polling.
\<close>

definition refetchInterval :: "DocumentStatus option \<Rightarrow> nat option" where
  "refetchInterval data =
     (let currentStatus = map_option status data in
      if currentStatus = Some ''processed'' \<or> currentStatus = Some ''error'' then None
      else Some 5000)"

text \<open>The effect that follows \<open>documentStatus\<close> (lines 85-104).\<close>

definition documentStatus_effect :: "DocumentStatus option \<Rightarrow> analyze \<Rightarrow> analyze" where
  "documentStatus_effect documentStatus s =
     (case documentStatus of
        None \<Rightarrow> s
      | Some ds \<Rightarrow>
          if status ds = ''processed'' then
            (case documentScopeCache s (docId s) of
               Some existingScope \<Rightarrow>
                 if is_confirmed existingScope
                 then s\<lparr>scopeData := Some existingScope, analysisStep := 3\<rparr>
                 else s\<lparr>scopeData := Some existingScope, analysisStep := 2\<rparr>
             | None \<Rightarrow> s\<lparr>analysisStep := 2\<rparr>)
          else if status ds = ''processing'' \<or> status ds = ''uploading''
          then s\<lparr>analysisStep := 1\<rparr>
          else s\<lparr>analysisStep := 0\<rparr>)"

section \<open>Effects on the document id and on the cache (lines 245-284)\<close>

text \<open>
  The effect on \<open>docId\<close> (lines 245-258). \<open>invalidateQueries\<close> marks the two keys stale
  and keeps their data (\<open>getQueryData\<close> still returns it), and it refetches the status
  query, the one of the two that is mounted: when that query has data the fetch in
  progress is dropped for a new request, when it has none the fetch in progress serves.
\<close>

definition docId_effect :: "analyze \<Rightarrow> analyze" where
  "docId_effect s =
     (if truthy_docId (docId s) then
        (let s1 = s\<lparr>analysisStep := 0,
                    scopeData := None,
                    generatedTopics := [],
                    generatedContent := Map.empty,
                    chatHistory := [],
                    invalidated := invalidated s @
                      [(''documentStatus'', docId s), (''documentScope'', docId s)]\<rparr>
         in if documentStatusCache s (docId s) \<noteq> None then documentStatus_queryFn s1 else s1)
      else add_toast (ToastInfo
        ''No document selected for analysis. Upload a document or select one.'') s)"

text \<open>
  The \<open>forEach\<close> of lines 267-272: the cached content of each cached topic, under the
  topic's text, when it is truthy. The object is filled by assignment, and an
  assignment of a text to \<open>__proto__\<close> stores nothing.
\<close>

definition cachedContent_of ::
  "(string option \<times> string \<times> string \<rightharpoonup> string) \<Rightarrow> string option \<Rightarrow> string \<Rightarrow> Topic list
     \<Rightarrow> (string \<rightharpoonup> string)" where
  "cachedContent_of cache d tpl cachedTopics =
     fold (\<lambda>topic cachedContent.
             case cache (d, tpl, topic_text topic) of
               None \<Rightarrow> cachedContent
             | Some c \<Rightarrow>
                 if c \<noteq> [] \<and> topic_text topic \<noteq> ''__proto__''
                 then cachedContent(topic_text topic \<mapsto> c) else cachedContent)
          cachedTopics Map.empty"

text \<open>\<open>scopeData?.is_confirmed\<close>.\<close>

definition scope_confirmed :: "ScopeData option \<Rightarrow> bool" where
  "scope_confirmed sd = (case sd of None \<Rightarrow> False | Some sc \<Rightarrow> is_confirmed sc)"

text \<open>
  The effect of lines 260-284. It reads the values of the render that scheduled it
  (\<open>r\<close>) and its updates go on top of those already made in the same commit (\<open>s\<close>); the
  updates of the first block are kept by the second.
\<close>

definition cacheHydration_update :: "analyze \<Rightarrow> analyze \<Rightarrow> analyze" where
  "cacheHydration_update r s =
     (let s1 =
        (if truthy_docId (docId r) \<and> selectedTemplate r \<noteq> [] \<and> analysisStep r = 3
            \<and> scope_confirmed (scopeData r)
         then (case generatedTopicsCache r (docId r, selectedTemplate r) of
                 None \<Rightarrow> s
               | Some cachedTopics \<Rightarrow>
                   add_toast (ToastInfo ''Loaded previously generated topics and content.'')
                     (s\<lparr>generatedTopics := cachedTopics,
                        analysisStep := 4,
                        generatedContent :=
                          cachedContent_of (generatedContentCache r) (docId r)
                            (selectedTemplate r) cachedTopics\<rparr>))
         else s)
      in if selectedTemplate r = [] \<and> 3 \<le> analysisStep r then
           s1\<lparr>generatedTopics := [],
              generatedContent := Map.empty,
              analysisStep :=
                (if scope_confirmed (scopeData r) then 3
                 else if scopeData r \<noteq> None then 2 else 0)\<rparr>
         else s1)"

text \<open>The same effect after a render in which it is the only one to run.\<close>

definition cacheHydration_effect :: "analyze \<Rightarrow> analyze" where
  "cacheHydration_effect s = cacheHydration_update s s"

text \<open>
  The page with a new \<open>docId\<close> (it is mounted, or the route parameter changes): the
  status query of that document fetches when it is enabled, and the first render sees
  the data that the query cache holds for it, if any. The effects then run in the order
  of their declaration, each on the values of that render: the status effect (line 85),
  the effect on \<open>docId\<close> (line 245), the hydration effect (line 260); of two updates of
  one cell the later stands. The hydration effect runs once more on the values of the
  next render.
\<close>

definition open_document :: "analyze \<Rightarrow> analyze" where
  "open_document s =
     (let s1 = (if documentStatus_enabled s then documentStatus_queryFn s else s);
          s2 = documentStatus_effect (documentStatusCache s (docId s)) s1;
          s3 = docId_effect s2
      in cacheHydration_effect (cacheHydration_update s s3))"

text \<open>
  An answer of the status request. Data equal to the data already held keeps its
  identity, so \<open>documentStatus\<close> does not change and no effect runs; other data replaces
  it, and the status effect and then the hydration effect run.
\<close>

definition documentStatus_answer :: "DocumentStatus \<Rightarrow> analyze \<Rightarrow> analyze" where
  "documentStatus_answer ds s =
     (if documentStatusCache s (docId s) = Some ds then s
      else cacheHydration_effect
             (documentStatus_effect (Some ds)
                (s\<lparr>documentStatusCache := (documentStatusCache s)(docId s \<mapsto> ds)\<rparr>)))"

text \<open>Choosing a template in the select box (line 516); the hydration effect follows.\<close>

definition select_template :: "string \<Rightarrow> analyze \<Rightarrow> analyze" where
  "select_template tpl s = cacheHydration_effect (s\<lparr>selectedTemplate := tpl\<rparr>)"

section \<open>Scope extraction (lines 128-138, 292-312)\<close>

text \<open>\<open>extractScopeMutation.mutate()\<close>: the request leaves; its answer comes later.\<close>

definition extractScopeMutation_mutate :: "analyze \<Rightarrow> analyze" where
  "extractScopeMutation_mutate s = add_call (ExtractDocumentScopeAPI (docId s) True) s"

definition handleStartAnalysis :: "analyze \<Rightarrow> analyze" where
  "handleStartAnalysis s =
     (if \<not> truthy_docId (docId s) \<or> selectedTemplate s = [] then
        add_toast (ToastError ''Document ID is missing or no template selected.'') s
      else if map_option status (documentStatusCache s (docId s)) \<noteq> Some ''processed'' then
        add_toast (ToastError ''Document is not yet processed. Please wait.'') s
      else
        (case scopeData s of
           None \<Rightarrow> extractScopeMutation_mutate s
         | Some sc \<Rightarrow>
             if \<not> is_confirmed sc then
               (add_toast (ToastInfo ''Scope already extracted. Please confirm it.'') s)
                 \<lparr>analysisStep := 2\<rparr>
             else
               (add_toast (ToastInfo ''Scope already confirmed. Proceed to topic generation.'') s)
                 \<lparr>analysisStep := 3\<rparr>))"

section \<open>Topic generation (lines 156-176, 322-332)\<close>

text \<open>\<open>generateTopicsMutation.mutate()\<close>: the request leaves; its answer comes later.\<close>

definition generateTopicsMutation_mutate :: "analyze \<Rightarrow> analyze" where
  "generateTopicsMutation_mutate s =
     add_call (GenerateTopicsAPI (docId s) (selectedTemplate s)) s"

text \<open>
  \<open>onSuccess\<close> and \<open>onError\<close> of \<open>generateTopicsMutation\<close>. The answer carries the
  topics or nothing in their place (\<open>data.topics || []\<close>); a topic without text is
  named. The callbacks read \<open>docId\<close> and \<open>selectedTemplate\<close> as last rendered.
\<close>

definition generateTopics_onSuccess :: "Topic list option \<Rightarrow> analyze \<Rightarrow> analyze" where
  "generateTopics_onSuccess topics s =
     (let newTopics =
            map (\<lambda>topic. topic\<lparr>topic_text :=
                            (if topic_text topic \<noteq> [] then topic_text topic
                             else ''Unnamed Topic'')\<rparr>)
                (case topics of None \<Rightarrow> [] | Some ts \<Rightarrow> ts);
          s1 = add_toast (ToastSuccess ''Topics generated successfully!'') s
      in s1\<lparr>generatedTopics := newTopics,
            analysisStep := 4,
            generatedTopicsCache :=
              (generatedTopicsCache s1)((docId s1, selectedTemplate s1) \<mapsto> newTopics)\<rparr>)"

definition generateTopics_onError :: "string \<Rightarrow> analyze \<Rightarrow> analyze" where
  "generateTopics_onError error s =
     add_toast (ToastError (''Failed to generate topics: '' @ error)) s"

definition generateTopicsMutation_settle :: "string + Topic list option \<Rightarrow> analyze \<Rightarrow> analyze" where
  "generateTopicsMutation_settle answer s =
     (case answer of
        Inl error \<Rightarrow> generateTopics_onError error s
      | Inr topics \<Rightarrow> generateTopics_onSuccess topics s)"

definition handleGenerateTopics :: "analyze \<Rightarrow> analyze" where
  "handleGenerateTopics s =
     (if \<not> truthy_docId (docId s) \<or> selectedTemplate s = [] then
        add_toast (ToastError
          ''Cannot generate topics without a document and selected template.'') s
      else if scopeData s = None \<or> \<not> scope_confirmed (scopeData s) then
        add_toast (ToastError ''Scope must be confirmed before generating topics.'') s
      else generateTopicsMutation_mutate s)"

section \<open>Content generation for one topic (lines 178-203, 334-351)\<close>

definition generateContent_onMutate :: "Topic \<Rightarrow> analyze \<Rightarrow> analyze" where
  "generateContent_onMutate topicToGenerate s =
     s\<lparr>contentLoadingState := (contentLoadingState s)(topic_text topicToGenerate \<mapsto> True)\<rparr>"

text \<open>The request that \<open>mutationFn\<close> of \<open>generateContentMutation\<close> sends for a topic.\<close>

definition generateContent_request :: "analyze \<Rightarrow> Topic \<Rightarrow> remote_call" where
  "generateContent_request s topic =
     GenerateContentAPI (docId s) (selectedTemplate s) (topic_text topic)"

definition generateContent_mutationFn :: "Topic \<Rightarrow> analyze \<Rightarrow> analyze" where
  "generateContent_mutationFn topicToGenerate s =
     add_call (generateContent_request s topicToGenerate) s"

definition generateContent_onSuccess :: "GenerateContentData \<Rightarrow> Topic \<Rightarrow> analyze \<Rightarrow> analyze" where
  "generateContent_onSuccess data topicGenerated s =
     (let topicKey = (if gen_topic data \<noteq> [] then gen_topic data else topic_text topicGenerated);
          s1 = add_toast (ToastSuccess (''Content generated for: '' @ topicKey)) s;
          s2 = s1\<lparr>generatedContent := (generatedContent s1)(topicKey \<mapsto> gen_content data)\<rparr>;
          s3 = (if \<not> isBatchGeneratingRef s2
                then s2\<lparr>currentTopicForModal := Some topicGenerated,
                        modalContent := gen_content data,
                        isModalOpen := True\<rparr>
                else s2)
      in s3\<lparr>generatedContentCache :=
              (generatedContentCache s3)((docId s3, selectedTemplate s3, topicKey) \<mapsto> gen_content data)\<rparr>)"

definition generateContent_onError :: "string \<Rightarrow> Topic \<Rightarrow> analyze \<Rightarrow> analyze" where
  "generateContent_onError error topicGenerated s =
     add_toast (ToastError (''Failed to generate content for '' @ topic_text topicGenerated
                              @ '': '' @ error)) s"

definition generateContent_onSettled :: "Topic \<Rightarrow> analyze \<Rightarrow> analyze" where
  "generateContent_onSettled topicGenerated s =
     s\<lparr>contentLoadingState := (contentLoadingState s)(topic_text topicGenerated \<mapsto> False)\<rparr>"

text \<open>
  A mutation of \<open>generateContentMutation\<close> in two steps. Starting it gives it the next
  number, makes the observer follow it and report pending, runs \<open>onMutate\<close> and sends
  the request. Its answer, an error message or the data, runs \<open>onSuccess\<close> or
  \<open>onError\<close> and then \<open>onSettled\<close>; the observer stops reporting pending when the
  mutation answered, number \<open>m\<close>, is the one it follows, the one started last.
\<close>

definition generateContentMutation_start :: "Topic \<Rightarrow> analyze \<Rightarrow> analyze" where
  "generateContentMutation_start topic s =
     generateContent_mutationFn topic
       (generateContent_onMutate topic
          (s\<lparr>generateContentMutationCount := Suc (generateContentMutationCount s),
             generateContentIsPending := True\<rparr>))"

definition generateContentMutation_settle ::
  "nat \<Rightarrow> string + GenerateContentData \<Rightarrow> Topic \<Rightarrow> analyze \<Rightarrow> analyze" where
  "generateContentMutation_settle m answer topic s =
     (let s1 = generateContent_onSettled topic
                 (case answer of
                    Inl error \<Rightarrow> generateContent_onError error topic s
                  | Inr data \<Rightarrow> generateContent_onSuccess data topic s)
      in if m = generateContentMutationCount s1
         then s1\<lparr>generateContentIsPending := False\<rparr> else s1)"

text \<open>
  \<open>mutateAsync\<close>, awaited: the mutation runs from start to answer. The remote service
  is a function \<open>gen\<close> from the requests sent so far, the last of them being the one it
  answers, to that answer.
\<close>

definition generateContentMutation_mutateAsync ::
  "(remote_call list \<Rightarrow> string + GenerateContentData) \<Rightarrow> Topic \<Rightarrow> analyze
     \<Rightarrow> analyze \<times> (string + GenerateContentData)" where
  "generateContentMutation_mutateAsync gen topic s =
     (let s1 = generateContentMutation_start topic s;
          answer = gen (calls s1)
      in (generateContentMutation_settle (generateContentMutationCount s1) answer topic s1,
          answer))"

text \<open>
  \<open>handleGenerateOrViewContent\<close>. When the content read is truthy the editor is opened
  on it. An own property is a text. An inherited member is not: \<open>setModalContent\<close> is
  then handed a function of the runtime (or the prototype), and what the editor holds
  after that is not a value of this state; the model ends there with the name read.
\<close>

datatype fault = InheritedMember string

definition handleGenerateOrViewContent :: "Topic \<Rightarrow> analyze \<Rightarrow> fault + analyze" where
  "handleGenerateOrViewContent topic s =
     (if truthy_content (generatedContent s) (topic_text topic) then
        (case generatedContent s (topic_text topic) of
           Some c \<Rightarrow> Inr (s\<lparr>currentTopicForModal := Some topic,
                            modalContent := c,
                            isModalOpen := True\<rparr>)
         | None \<Rightarrow> Inl (InheritedMember (topic_text topic)))
      else if generateContentIsPending s
              \<and> truthy_loading (contentLoadingState s) (topic_text topic) then
        Inr (add_toast (ToastInfo (''Still generating content for: '' @ topic_text topic)) s)
      else if generateContentIsPending s
              \<and> \<not> truthy_loading (contentLoadingState s) (topic_text topic) then
        Inr (add_toast
               (ToastInfo ''Please wait for the current content generation to complete.'') s)
      else Inr (generateContentMutation_start topic s))"

text \<open>
  The \<open>disabled\<close> attribute of a topic's button (line 738) and a click on it, the one
  place that calls the handler (line 737): a disabled button does not call it.
\<close>

definition topic_button_disabled :: "Topic \<Rightarrow> analyze \<Rightarrow> bool" where
  "topic_button_disabled topic s =
     ((isGeneratingAll s \<and> \<not> truthy_content (generatedContent s) (topic_text topic))
      \<or> truthy_loading (contentLoadingState s) (topic_text topic)
      \<or> (generateContentIsPending s
          \<and> \<not> truthy_loading (contentLoadingState s) (topic_text topic)
          \<and> \<not> isGeneratingAll s))"

definition click_topic_button :: "Topic \<Rightarrow> analyze \<Rightarrow> fault + analyze" where
  "click_topic_button topic s =
     (if topic_button_disabled topic s then Inr s else handleGenerateOrViewContent topic s)"

section \<open>Batch generation (lines 353-376)\<close>

text \<open>
  The condition of line 363. The handler reads \<open>generatedContent\<close> and
  \<open>contentLoadingState\<close> through its closure, so every iteration sees the values
  \<open>gc\<close> and \<open>ls\<close> of the render in which the handler was called.
\<close>

definition needs_generation :: "(string \<rightharpoonup> string) \<Rightarrow> (string \<rightharpoonup> bool) \<Rightarrow> Topic \<Rightarrow> bool" where
  "needs_generation gc ls topic =
     (\<not> truthy_content gc (topic_text topic) \<and> \<not> truthy_loading ls (topic_text topic))"

text \<open>The notification of the \<open>catch\<close> block (line 368).\<close>

definition batch_failure_toast :: "Topic \<Rightarrow> toast" where
  "batch_failure_toast topic =
     ToastError (''Failed to generate content for '' @ topic_text topic
                   @ '' during batch operation.'')"

text \<open>
  One passage through the \<open>try\<close> and \<open>catch\<close> of lines 364-369, on the state and
  \<open>count\<close>: the awaited mutation, then \<open>count++\<close> or the notification of the failure.
\<close>

definition batch_try ::
  "(remote_call list \<Rightarrow> string + GenerateContentData) \<Rightarrow> Topic \<Rightarrow> analyze \<times> nat
     \<Rightarrow> analyze \<times> nat" where
  "batch_try gen topic sc =
     (case sc of
        (s, count) \<Rightarrow>
          (case generateContentMutation_mutateAsync gen topic s of
             (s', Inr data) \<Rightarrow> (s', count + 1)
           | (s', Inl error) \<Rightarrow> (add_toast (batch_failure_toast topic) s', count)))"

text \<open>The loop of lines 362-371 over the remaining topics, on the state and \<open>count\<close>.\<close>

fun batch_loop ::
  "(remote_call list \<Rightarrow> string + GenerateContentData) \<Rightarrow> (string \<rightharpoonup> string) \<Rightarrow> (string \<rightharpoonup> bool)
     \<Rightarrow> Topic list \<Rightarrow> analyze \<times> nat \<Rightarrow> analyze \<times> nat" where
  "batch_loop gen gc ls [] sc = sc"
| "batch_loop gen gc ls (topic # rest) sc =
     batch_loop gen gc ls rest
       (if needs_generation gc ls topic then batch_try gen topic sc else sc)"

definition handleGenerateAllContent ::
  "(remote_call list \<Rightarrow> string + GenerateContentData) \<Rightarrow> analyze \<Rightarrow> analyze" where
  "handleGenerateAllContent gen s =
     (if generatedTopics s = [] then
        add_toast (ToastInfo ''No topics available to generate content for.'') s
      else
        (let s1 = add_toast (ToastInfo ''Starting batch content generation...'')
                    (s\<lparr>isBatchGeneratingRef := True, isGeneratingAll := True\<rparr>);
             (s2, count) = batch_loop gen (generatedContent s) (contentLoadingState s)
                             (generatedTopics s) (s1, 0);
             s3 = s2\<lparr>isBatchGeneratingRef := False, isGeneratingAll := False\<rparr>
         in if 0 < count then
              add_toast (ToastSuccess (''Batch content generation completed for ''
                                         @ show_nat count @ '' topics.'')) s3
            else
              add_toast (ToastInfo
                ''No new content was generated in batch (already exists or was generating).'') s3))"

section \<open>Saving the edited content (lines 205-227, 402-418)\<close>

text \<open>
  \<open>mutationFn\<close> of \<open>saveContentMutation\<close>: it throws before any request when the document
  id or the topic id is falsy (the message is returned), and sends the request otherwise.
\<close>

definition saveContent_mutationFn :: "Topic \<Rightarrow> string \<Rightarrow> analyze \<Rightarrow> analyze \<times> string option" where
  "saveContent_mutationFn topic draft s =
     (if \<not> truthy_docId (docId s) then
        (add_toast (ToastError ''Cannot save content: Document ID is missing.'') s,
         Some ''Document ID is missing'')
      else
        (case topic_id topic of
           None \<Rightarrow> (add_toast (ToastError ''Cannot save content: Topic ID is missing.'') s,
                     Some ''Topic ID is missing'')
         | Some i \<Rightarrow>
             if i = 0 then
               (add_toast (ToastError ''Cannot save content: Topic ID is missing.'') s,
                Some ''Topic ID is missing'')
             else (add_call (SaveDocumentContentAPI (docId s) i draft) s, None)))"

definition saveContent_onSuccess :: "Topic \<Rightarrow> string \<Rightarrow> analyze \<Rightarrow> analyze" where
  "saveContent_onSuccess topic draft s =
     (let s1 = add_toast (ToastSuccess (''Content for \"'' @ topic_text topic
                                          @ ''\" saved successfully!'')) s
      in s1\<lparr>generatedContent := (generatedContent s1)(topic_text topic \<mapsto> draft)\<rparr>)"

definition saveContent_onError :: "string \<Rightarrow> Topic \<Rightarrow> analyze \<Rightarrow> analyze" where
  "saveContent_onError error topic s =
     add_toast (ToastError (''Failed to save content for \"'' @ topic_text topic
                              @ ''\": '' @ error)) s"

text \<open>
  \<open>saveContentMutation.mutate\<close>: a throw of \<open>mutationFn\<close> settles the mutation at once;
  otherwise the request is on its way and its answer settles it later.
\<close>

definition saveContentMutation_mutate :: "Topic \<Rightarrow> string \<Rightarrow> analyze \<Rightarrow> analyze" where
  "saveContentMutation_mutate topic draft s =
     (case saveContent_mutationFn topic draft s of
        (s', Some error) \<Rightarrow> saveContent_onError error topic s'
      | (s', None) \<Rightarrow> s')"

definition saveContentMutation_settle :: "string + unit \<Rightarrow> Topic \<Rightarrow> string \<Rightarrow> analyze \<Rightarrow> analyze" where
  "saveContentMutation_settle answer topic draft s =
     (case answer of
        Inl error \<Rightarrow> saveContent_onError error topic s
      | Inr ack \<Rightarrow> saveContent_onSuccess topic draft s)"

definition handleSaveModalContent :: "analyze \<Rightarrow> analyze" where
  "handleSaveModalContent s =
     (case currentTopicForModal s of
        None \<Rightarrow> add_toast (ToastError
                  ''Error saving content: No topic selected or document ID missing.'') s
      | Some topic \<Rightarrow>
          if truthy_docId (docId s) then
            (let s1 = s\<lparr>generatedContent :=
                         (generatedContent s)(topic_text topic \<mapsto> modalContent s)\<rparr>;
                 s2 = s1\<lparr>generatedContentCache :=
                          (generatedContentCache s1)
                            ((docId s1, selectedTemplate s1, topic_text topic) \<mapsto> modalContent s1)\<rparr>;
                 s3 = (if truthy_id (topic_id topic)
                       then saveContentMutation_mutate topic (modalContent s2) s2
                       else add_toast (ToastInfo
                              ''Content saved locally. Topic ID missing for backend save.'') s2)
             in s3\<lparr>isModalOpen := False\<rparr>)
          else add_toast (ToastError
                 ''Error saving content: No topic selected or document ID missing.'') s)"

section \<open>Chat (lines 229-243, 420-428)\<close>

definition chat_onMutate :: "string \<Rightarrow> analyze \<Rightarrow> analyze" where
  "chat_onMutate userMessage s =
     s\<lparr>chatHistory := chatHistory s @ [\<lparr>role = User, content = userMessage\<rparr>],
       currentChatMessage := []\<rparr>"

definition chat_mutationFn :: "string \<Rightarrow> ChatMessage list \<Rightarrow> analyze \<Rightarrow> analyze" where
  "chat_mutationFn userMessage history s =
     add_call (ChatWithDocumentAPI (docId s) (selectedTemplate s) userMessage history) s"

text \<open>
  \<open>onSuccess\<close>: the assistant's turn is appended; the cache entry receives the
  \<open>chatHistory\<close> of the closure, the transcript as last rendered.
\<close>

definition chat_onSuccess :: "string \<Rightarrow> analyze \<Rightarrow> analyze" where
  "chat_onSuccess response s =
     s\<lparr>chatHistory := chatHistory s @ [\<lparr>role = Assistant, content = response\<rparr>],
       chatHistoryCache :=
         (chatHistoryCache s)((docId s, selectedTemplate s) \<mapsto> chatHistory s)\<rparr>"

definition chat_onError :: "string \<Rightarrow> analyze \<Rightarrow> analyze" where
  "chat_onError error s =
     (add_toast (ToastError (''Chat error: '' @ error)) s)\<lparr>chatHistory := butlast (chatHistory s)\<rparr>"

definition chatMutation_mutate :: "string \<Rightarrow> ChatMessage list \<Rightarrow> analyze \<Rightarrow> analyze" where
  "chatMutation_mutate userMessage history s =
     chat_mutationFn userMessage history (chat_onMutate userMessage s)"

definition chatMutation_settle :: "string + string \<Rightarrow> analyze \<Rightarrow> analyze" where
  "chatMutation_settle answer s =
     (case answer of
        Inl error \<Rightarrow> chat_onError error s
      | Inr response \<Rightarrow> chat_onSuccess response s)"

definition handleSendChatMessage :: "analyze \<Rightarrow> analyze" where
  "handleSendChatMessage s =
     (if trim (currentChatMessage s) = [] then s
      else if \<not> truthy_docId (docId s) \<or> selectedTemplate s = [] then
        add_toast (ToastError ''Document and template must be selected for chat.'') s
      else
        (let historyForAPI = map (\<lambda>msg. \<lparr>role = role msg, content = content msg\<rparr>) (chatHistory s)
         in chatMutation_mutate (currentChatMessage s) historyForAPI s))"

text \<open>A send from the click to the answer of the chat service \<open>chat\<close>.\<close>

definition send_chat :: "(remote_call list \<Rightarrow> string + string) \<Rightarrow> analyze \<Rightarrow> analyze" where
  "send_chat chat s =
     (let s1 = handleSendChatMessage s
      in if calls s1 = calls s then s1 else chatMutation_settle (chat (calls s1)) s1)"

section \<open>What the batch sends and how many answers are data\<close>

text \<open>The topics of the page that pass the condition of line 363, in their order.\<close>

definition batch_topics :: "analyze \<Rightarrow> Topic list" where
  "batch_topics s =
     filter (needs_generation (generatedContent s) (contentLoadingState s)) (generatedTopics s)"

text \<open>
  The number of the requests \<open>cs\<close>, sent one after the other once \<open>log\<close> has been sent,
  that the service \<open>gen\<close> answers with data.
\<close>

fun successes ::
  "(remote_call list \<Rightarrow> string + GenerateContentData) \<Rightarrow> remote_call list \<Rightarrow> remote_call list
     \<Rightarrow> nat" where
  "successes gen log [] = 0"
| "successes gen log (c # cs) =
     (case gen (log @ [c]) of Inl error \<Rightarrow> 0 | Inr data \<Rightarrow> 1) + successes gen (log @ [c]) cs"

text \<open>
  The notifications that the requests for the topics \<open>ts\<close>, sent one after the other
  once \<open>log\<close> has been sent, leave behind: the one of \<open>onSuccess\<close> for an answer with
  data; the one of \<open>onError\<close> and the one of the \<open>catch\<close> block for a failure.
\<close>

fun batch_notifications ::
  "(remote_call list \<Rightarrow> string + GenerateContentData) \<Rightarrow> remote_call list
     \<Rightarrow> (Topic \<Rightarrow> remote_call) \<Rightarrow> Topic list \<Rightarrow> toast list" where
  "batch_notifications gen log req [] = []"
| "batch_notifications gen log req (t # ts) =
     (case gen (log @ [req t]) of
        Inl error \<Rightarrow>
          [ToastError (''Failed to generate content for '' @ topic_text t @ '': '' @ error),
           batch_failure_toast t]
      | Inr data \<Rightarrow>
          [ToastSuccess (''Content generated for: ''
             @ (if gen_topic data \<noteq> [] then gen_topic data else topic_text t))])
     @ batch_notifications gen (log @ [req t]) req ts"

section \<open>Example sessions\<close>

text \<open>
  The page as first mounted for document \<open>doc1\<close>: the initial values of every state
  cell, an empty query cache, nothing shown and nothing sent.
\<close>

definition session0 :: analyze where
  "session0 =
     \<lparr>docId = Some ''doc1'', selectedTemplate = [], analysisStep = 0, scopeData = None,
      generatedTopics = [], generatedContent = Map.empty, contentLoadingState = Map.empty,
      chatHistory = [], currentChatMessage = [], isBatchGeneratingRef = False,
      isModalOpen = False, currentTopicForModal = None, modalContent = [],
      isGeneratingAll = False, documentScopeCache = Map.empty,
      generatedTopicsCache = Map.empty, generatedContentCache = Map.empty,
      chatHistoryCache = Map.empty, documentStatusCache = Map.empty, invalidated = [],
      generateContentMutationCount = 0, generateContentIsPending = False,
      toasts = [], calls = []\<rparr>"

text \<open>A topic as the service returns it when it sets only the text, or the text and an id.\<close>

definition topic_named :: "string \<Rightarrow> Topic" where
  "topic_named t =
     \<lparr>topic_id = None, topic_number = None, topic_text = t, topic_level = None,
      topic_status = None, topic_page = None, topic_is_confirmed = None\<rparr>"

definition topic_with_id :: "int \<Rightarrow> string \<Rightarrow> Topic" where
  "topic_with_id i t = (topic_named t)\<lparr>topic_id := Some i\<rparr>"

definition status_of :: "string \<Rightarrow> DocumentStatus" where
  "status_of st = \<lparr>status = st, message = [], pages = None, progress = None\<rparr>"

definition scope_example :: "bool \<Rightarrow> ScopeData" where
  "scope_example c =
     \<lparr>scope_text = ''...'', source_pages = [3, 4], is_confirmed = c, is_complete = None\<rparr>"

text \<open>
  A later visit of \<open>doc1\<close> with template \<open>tplA\<close> chosen: the query cache holds the
  confirmed scope, the two topics generated for \<open>tplA\<close> and the content of \<open>Intro\<close>.
\<close>

definition session_cached :: analyze where
  "session_cached =
     session0\<lparr>selectedTemplate := ''tplA'',
       documentScopeCache := [Some ''doc1'' \<mapsto> scope_example True],
       generatedTopicsCache :=
         [(Some ''doc1'', ''tplA'') \<mapsto> [topic_named ''Intro'', topic_named ''Scope'']],
       generatedContentCache := [(Some ''doc1'', ''tplA'', ''Intro'') \<mapsto> ''Welcome'']\<rparr>"

text \<open>
  Stage 4 of \<open>doc1\<close> with \<open>tplA\<close>: the topics \<open>Intro\<close> and \<open>Scope\<close> are shown, \<open>Intro\<close>
  has content, nothing is being generated.
\<close>

definition session_topics :: analyze where
  "session_topics =
     session0\<lparr>selectedTemplate := ''tplA'', analysisStep := 4,
       scopeData := Some (scope_example True),
       generatedTopics := [topic_named ''Intro'', topic_named ''Scope''],
       generatedContent := [''Intro'' \<mapsto> ''Welcome'']\<rparr>"

text \<open>A service that fails every request, and one that answers every request.\<close>

definition gen_down :: "remote_call list \<Rightarrow> string + GenerateContentData" where
  "gen_down log = Inl ''Network Error''"

definition gen_up :: "remote_call list \<Rightarrow> string + GenerateContentData" where
  "gen_up log = Inr \<lparr>gen_content = ''text'', gen_topic = []\<rparr>"

text \<open>The same stage before any content exists.\<close>

definition session_two :: analyze where
  "session_two = session_topics\<lparr>generatedContent := Map.empty\<rparr>"

text \<open>
  A topic whose text is the name of a member of \<open>Object.prototype\<close>, and \<open>Scope\<close>;
  no content exists.
\<close>

definition session_constructor :: analyze where
  "session_constructor =
     session_two\<lparr>generatedTopics := [topic_named ''constructor'', topic_named ''Scope'']\<rparr>"

text \<open>\<open>Generate\<close> has been clicked for \<open>Scope\<close>, and the request is out.\<close>

definition session_generating :: analyze where
  "session_generating = generateContentMutation_start (topic_named ''Scope'') session_topics"

text \<open>
  Before any content exists \<open>Generate\<close> is clicked for \<open>Intro\<close>; while that request
  is out, \<open>Generate All\<close> is clicked, and the batch, which passes over \<open>Intro\<close>, is
  answered for \<open>Scope\<close>. \<open>Intro\<close> is still to be answered.
\<close>

definition session_overlap :: analyze where
  "session_overlap =
     handleGenerateAllContent gen_up
       (generateContentMutation_start (topic_named ''Intro'') session_two)"

text \<open>
  The page is opened again on \<open>doc1\<close>: the state cells have their initial values, and
  the query cache still holds what the earlier visit left there: the status of the
  document, the confirmed scope, the topics generated for \<open>tplA\<close> and the content of
  \<open>Intro\<close>. The effects run and the status request is answered as before; then \<open>tplA\<close>
  is chosen; then the start button is clicked.
\<close>

definition session_revisit :: analyze where
  "session_revisit =
     session_cached\<lparr>selectedTemplate := [],
       documentStatusCache := [Some ''doc1'' \<mapsto> status_of ''processed'']\<rparr>"

definition revisit_opened :: analyze where
  "revisit_opened = documentStatus_answer (status_of ''processed'') (open_document session_revisit)"

definition revisit_template :: analyze where
  "revisit_template = select_template ''tplA'' revisit_opened"

definition revisit_started :: analyze where
  "revisit_started = handleStartAnalysis revisit_template"

text \<open>
  Topics are requested for \<open>doc1\<close> at stage 3; before the answer the route changes to
  \<open>doc2\<close>, whose status request is answered with \<open>processed\<close>; then the answer with
  the topics arrives, and the hydration effect follows the new stage.
\<close>

definition session_confirmed :: analyze where
  "session_confirmed =
     session0\<lparr>selectedTemplate := ''tplA'', analysisStep := 3,
       scopeData := Some (scope_example True),
       documentScopeCache := [Some ''doc1'' \<mapsto> scope_example True],
       documentStatusCache := [Some ''doc1'' \<mapsto> status_of ''processed'']\<rparr>"

definition session_requested :: analyze where
  "session_requested = handleGenerateTopics session_confirmed"

definition session_late_topics :: analyze where
  "session_late_topics =
     cacheHydration_effect
       (generateTopicsMutation_settle
          (Inr (Some [topic_named ''Intro'', topic_named ''Scope'']))
          (documentStatus_answer (status_of ''processed'')
             (open_document (session_requested\<lparr>docId := Some ''doc2''\<rparr>))))"

text \<open>The editor is open on a topic with the draft \<open>Edited\<close>.\<close>

definition session_editing :: "Topic \<Rightarrow> analyze" where
  "session_editing topic =
     session_topics\<lparr>currentTopicForModal := Some topic, modalContent := ''Edited'',
       isModalOpen := True\<rparr>"

text \<open>One question has been answered and the next is typed.\<close>

definition session_chat :: analyze where
  "session_chat =
     session_topics\<lparr>chatHistory := [\<lparr>role = User, content = ''Hello''\<rparr>,
                                      \<lparr>role = Assistant, content = ''Hi''\<rparr>],
       currentChatMessage := ''What is the scope?''\<rparr>"

section \<open>Helper lemmas\<close>

lemma trim_empty_iff: "trim x = [] \<longleftrightarrow> (\<forall>c \<in> set x. isWhiteSpace c)"
proof
  assume "trim x = []"
  then have "dropWhile isWhiteSpace (rev (dropWhile isWhiteSpace x)) = []"
    by (simp add: trim_def)
  then have "\<forall>c \<in> set (rev (dropWhile isWhiteSpace x)). isWhiteSpace c"
    by simp
  then have "dropWhile isWhiteSpace x = []"
    by (metis dropWhile_eq_Nil_conv dropWhile_idem set_rev)
  then show "\<forall>c \<in> set x. isWhiteSpace c"
    by simp
next
  assume "\<forall>c \<in> set x. isWhiteSpace c"
  then show "trim x = []"
    by (auto simp: trim_def dest: set_dropWhileD)
qed

lemma historyForAPI_copy:
  "map (\<lambda>msg. \<lparr>role = role msg, content = content msg\<rparr>) (h :: ChatMessage list) = h"
  by (induction h) simp_all

subsection \<open>The batch loop\<close>

lemma mutateAsync_frame:
  "docId (fst (generateContentMutation_mutateAsync gen t s)) = docId s"
  "selectedTemplate (fst (generateContentMutation_mutateAsync gen t s)) = selectedTemplate s"
  "calls (fst (generateContentMutation_mutateAsync gen t s)) =
     calls s @ [generateContent_request s t]"
  "snd (generateContentMutation_mutateAsync gen t s) = gen (calls s @ [generateContent_request s t])"
  "set (toasts s) \<subseteq> set (toasts (fst (generateContentMutation_mutateAsync gen t s)))"
  by (auto simp add: generateContentMutation_mutateAsync_def generateContentMutation_start_def
        generateContentMutation_settle_def generateContent_mutationFn_def
        generateContent_onMutate_def generateContent_onSuccess_def generateContent_onError_def
        generateContent_onSettled_def generateContent_request_def add_toast_def add_call_def
        Let_def split: sum.splits)

lemma batch_try_frame:
  "docId (fst (batch_try gen t (s, c))) = docId s"
  "selectedTemplate (fst (batch_try gen t (s, c))) = selectedTemplate s"
  "calls (fst (batch_try gen t (s, c))) = calls s @ [generateContent_request s t]"
  "snd (batch_try gen t (s, c)) =
     c + (case gen (calls s @ [generateContent_request s t]) of Inl error \<Rightarrow> 0 | Inr data \<Rightarrow> 1)"
  "set (toasts s) \<subseteq> set (toasts (fst (batch_try gen t (s, c))))"
  "gen (calls s @ [generateContent_request s t]) = Inl e \<Longrightarrow>
     batch_failure_toast t \<in> set (toasts (fst (batch_try gen t (s, c))))"
proof -
  obtain s1 a where m: "generateContentMutation_mutateAsync gen t s = (s1, a)"
    by (cases "generateContentMutation_mutateAsync gen t s")
  have f: "docId s1 = docId s" "selectedTemplate s1 = selectedTemplate s"
    "calls s1 = calls s @ [generateContent_request s t]"
    "gen (calls s @ [generateContent_request s t]) = a"
    "set (toasts s) \<subseteq> set (toasts s1)"
    using mutateAsync_frame [where gen = gen and t = t and s = s] m by simp_all
  have b: "batch_try gen t (s, c) =
             (case a of Inr data \<Rightarrow> (s1, c + 1)
                      | Inl error \<Rightarrow> (add_toast (batch_failure_toast t) s1, c))"
    by (cases a) (simp_all add: batch_try_def m)
  show "docId (fst (batch_try gen t (s, c))) = docId s"
    unfolding b using f by (cases a) (simp_all add: add_toast_def)
  show "selectedTemplate (fst (batch_try gen t (s, c))) = selectedTemplate s"
    unfolding b using f by (cases a) (simp_all add: add_toast_def)
  show "calls (fst (batch_try gen t (s, c))) = calls s @ [generateContent_request s t]"
    unfolding b using f by (cases a) (simp_all add: add_toast_def)
  show "snd (batch_try gen t (s, c)) =
     c + (case gen (calls s @ [generateContent_request s t]) of Inl error \<Rightarrow> 0 | Inr data \<Rightarrow> 1)"
    unfolding b f by (cases a) simp_all
  show "set (toasts s) \<subseteq> set (toasts (fst (batch_try gen t (s, c))))"
    unfolding b using f by (cases a) (auto simp add: add_toast_def)
  show "batch_failure_toast t \<in> set (toasts (fst (batch_try gen t (s, c))))"
    if "gen (calls s @ [generateContent_request s t]) = Inl e"
    unfolding b using f that by (cases a) (auto simp add: add_toast_def)
qed

lemma generateContent_request_cong:
  "docId s' = docId s \<Longrightarrow> selectedTemplate s' = selectedTemplate s \<Longrightarrow>
   generateContent_request s' = generateContent_request s"
  by (simp add: generateContent_request_def fun_eq_iff)

lemma batch_loop_toasts_mono:
  "set (toasts s) \<subseteq> set (toasts (fst (batch_loop gen gc ls ts (s, c))))"
proof (induction ts arbitrary: s c)
  case Nil
  show ?case by simp
next
  case (Cons t ts)
  show ?case
  proof (cases "needs_generation gc ls t")
    case False
    then show ?thesis using Cons.IH [of s c] by simp
  next
    case True
    obtain s' c' where st: "batch_try gen t (s, c) = (s', c')"
      by (cases "batch_try gen t (s, c)")
    have sub: "set (toasts s) \<subseteq> set (toasts s')"
      using batch_try_frame(5) [of s gen t c] st by simp
    have "set (toasts s') \<subseteq> set (toasts (fst (batch_loop gen gc ls ts (s', c'))))"
      by (rule Cons.IH)
    with sub show ?thesis
      using True st by auto
  qed
qed

lemma batch_loop_calls:
  "calls (fst (batch_loop gen gc ls ts (s, c))) =
     calls s @ map (generateContent_request s) (filter (needs_generation gc ls) ts)
   \<and> snd (batch_loop gen gc ls ts (s, c)) =
       c + successes gen (calls s)
             (map (generateContent_request s) (filter (needs_generation gc ls) ts))"
proof (induction ts arbitrary: s c)
  case Nil
  show ?case by simp
next
  case (Cons t ts)
  show ?case
  proof (cases "needs_generation gc ls t")
    case False
    then show ?thesis using Cons.IH [of s c] by simp
  next
    case True
    obtain s' c' where st: "batch_try gen t (s, c) = (s', c')"
      by (cases "batch_try gen t (s, c)")
    define n :: nat where
      "n = (case gen (calls s @ [generateContent_request s t]) of Inl error \<Rightarrow> 0 | Inr data \<Rightarrow> 1)"
    define todo where "todo = filter (needs_generation gc ls) ts"
    have f: "docId s' = docId s" "selectedTemplate s' = selectedTemplate s"
      "calls s' = calls s @ [generateContent_request s t]" "c' = c + n"
      using batch_try_frame(1-4) [of gen t s c] st by (simp_all add: n_def)
    have r: "generateContent_request s' = generateContent_request s"
      by (rule generateContent_request_cong [OF f(1,2)])
    have loop: "batch_loop gen gc ls (t # ts) (s, c) = batch_loop gen gc ls ts (s', c')"
      using True st by simp
    have filt: "filter (needs_generation gc ls) (t # ts) = t # todo"
      using True by (simp add: todo_def)
    have ih: "calls (fst (batch_loop gen gc ls ts (s', c'))) =
                calls s' @ map (generateContent_request s') todo"
      "snd (batch_loop gen gc ls ts (s', c')) =
         c' + successes gen (calls s') (map (generateContent_request s') todo)"
      using Cons.IH [of s' c'] by (simp_all add: todo_def)
    have su: "successes gen (calls s) (map (generateContent_request s) (t # todo)) =
            n + successes gen (calls s') (map (generateContent_request s) todo)"
      by (simp add: n_def f(3))
    show ?thesis
      unfolding loop filt ih su r by (simp add: f(3,4))
  qed
qed

lemma batch_loop_failure_toast:
  "k < length (filter (needs_generation gc ls) ts) \<Longrightarrow>
   gen (calls s @ map (generateContent_request s) (take (Suc k) (filter (needs_generation gc ls) ts)))
     = Inl e \<Longrightarrow>
   batch_failure_toast (filter (needs_generation gc ls) ts ! k)
     \<in> set (toasts (fst (batch_loop gen gc ls ts (s, c))))"
proof (induction ts arbitrary: s c k)
  case Nil
  then show ?case by simp
next
  case (Cons t ts)
  show ?case
  proof (cases "needs_generation gc ls t")
    case False
    then show ?thesis using Cons.IH [of k s c] Cons.prems by simp
  next
    case True
    obtain s' c' where st: "batch_try gen t (s, c) = (s', c')"
      by (cases "batch_try gen t (s, c)")
    have f: "docId s' = docId s" "selectedTemplate s' = selectedTemplate s"
      "calls s' = calls s @ [generateContent_request s t]"
      using batch_try_frame(1-3) [of gen t s c] st by simp_all
    have r: "generateContent_request s' = generateContent_request s"
      by (rule generateContent_request_cong [OF f(1,2)])
    have loop: "batch_loop gen gc ls (t # ts) (s, c) = batch_loop gen gc ls ts (s', c')"
      using True st by simp
    have filt: "filter (needs_generation gc ls) (t # ts) = t # filter (needs_generation gc ls) ts"
      using True by simp
    show ?thesis
    proof (cases k)
      case 0
      then have "gen (calls s @ [generateContent_request s t]) = Inl e"
        using Cons.prems True by simp
      then have "batch_failure_toast t \<in> set (toasts s')"
        using batch_try_frame(6) [of gen s t e c] st by simp
      then have "batch_failure_toast t \<in> set (toasts (fst (batch_loop gen gc ls ts (s', c'))))"
        using batch_loop_toasts_mono [of s' gen gc ls ts c'] by blast
      then show ?thesis
        unfolding loop filt using 0 by simp
    next
      case (Suc k')
      have lt: "k' < length (filter (needs_generation gc ls) ts)"
        using Cons.prems True Suc by simp
      have "gen (calls s' @ map (generateContent_request s')
               (take (Suc k') (filter (needs_generation gc ls) ts))) = Inl e"
        using Cons.prems True Suc f r by simp
      from Cons.IH [OF lt this, of c'] show ?thesis
        unfolding loop filt using Suc by simp
    qed
  qed
qed

lemma needs_generation_plain:
  "k \<notin> set object_prototype_names \<Longrightarrow> ls k \<noteq> Some True \<Longrightarrow>
   (\<not> truthy_content gc k \<and> \<not> truthy_loading ls k) = (\<not> has_cached_content gc k)"
  by (cases "ls k"; cases "gc k")
     (simp_all add: truthy_content_def truthy_loading_def has_cached_content_def)

lemma batch_filter_plain:
  assumes "\<forall>t \<in> set ts. topic_text t \<notin> set object_prototype_names"
    and "\<forall>t \<in> set ts. ls (topic_text t) \<noteq> Some True"
  shows "filter (needs_generation gc ls) ts =
           filter (\<lambda>t. \<not> has_cached_content gc (topic_text t)) ts"
  using assms
  by (intro filter_cong refl) (simp add: needs_generation_def needs_generation_plain)

lemma batch_size:
  assumes "\<forall>t \<in> set ts. topic_text t \<notin> set object_prototype_names"
    and "\<forall>t \<in> set ts. ls (topic_text t) \<noteq> Some True"
  shows "length (filter (needs_generation gc ls) ts) =
           length ts - length (filter (\<lambda>t. has_cached_content gc (topic_text t)) ts)"
proof -
  have "length (filter (\<lambda>t. has_cached_content gc (topic_text t)) ts)
      + length (filter (\<lambda>t. \<not> has_cached_content gc (topic_text t)) ts) = length ts"
    by (rule sum_length_filter_compl)
  then show ?thesis
    unfolding batch_filter_plain [OF assms] by simp
qed

lemma mutateAsync_settled:
  "contentLoadingState (fst (generateContentMutation_mutateAsync gen t s)) (topic_text t) = Some False"
  "contentLoadingState s k = Some False \<Longrightarrow>
     contentLoadingState (fst (generateContentMutation_mutateAsync gen t s)) k = Some False"
  by (auto simp add: generateContentMutation_mutateAsync_def generateContentMutation_start_def
        generateContentMutation_settle_def generateContent_mutationFn_def
        generateContent_onMutate_def generateContent_onSuccess_def generateContent_onError_def
        generateContent_onSettled_def add_toast_def add_call_def Let_def split: sum.splits)

lemma batch_try_settled:
  "contentLoadingState (fst (batch_try gen t (s, c))) (topic_text t) = Some False"
  "contentLoadingState s k = Some False \<Longrightarrow>
     contentLoadingState (fst (batch_try gen t (s, c))) k = Some False"
proof -
  obtain s1 a where m: "generateContentMutation_mutateAsync gen t s = (s1, a)"
    by (cases "generateContentMutation_mutateAsync gen t s")
  have b: "batch_try gen t (s, c) =
             (case a of Inr data \<Rightarrow> (s1, c + 1)
                      | Inl error \<Rightarrow> (add_toast (batch_failure_toast t) s1, c))"
    by (cases a) (simp_all add: batch_try_def m)
  have f: "contentLoadingState s1 (topic_text t) = Some False"
    using mutateAsync_settled(1) [of gen t s] m by simp
  show "contentLoadingState (fst (batch_try gen t (s, c))) (topic_text t) = Some False"
    unfolding b using f by (cases a) (simp_all add: add_toast_def)
  show "contentLoadingState (fst (batch_try gen t (s, c))) k = Some False"
    if "contentLoadingState s k = Some False"
  proof -
    have "contentLoadingState s1 k = Some False"
      using mutateAsync_settled(2) [OF that, of gen t] m by simp
    then show ?thesis
      unfolding b by (cases a) (simp_all add: add_toast_def)
  qed
qed

lemma batch_loop_keeps_settled:
  "contentLoadingState s k = Some False \<Longrightarrow>
     contentLoadingState (fst (batch_loop gen gc ls ts (s, c))) k = Some False"
proof (induction ts arbitrary: s c)
  case Nil
  then show ?case by simp
next
  case (Cons t ts)
  show ?case
  proof (cases "needs_generation gc ls t")
    case False
    then show ?thesis using Cons.IH [OF Cons.prems, of c] by simp
  next
    case True
    obtain s' c' where st: "batch_try gen t (s, c) = (s', c')"
      by (cases "batch_try gen t (s, c)")
    have "contentLoadingState s' k = Some False"
      using batch_try_settled(2) [OF Cons.prems, of gen t c] st by simp
    from Cons.IH [OF this, of c'] show ?thesis
      using True st by simp
  qed
qed

lemma batch_loop_settled:
  "t \<in> set (filter (needs_generation gc ls) ts) \<Longrightarrow>
     contentLoadingState (fst (batch_loop gen gc ls ts (s, c))) (topic_text t) = Some False"
proof (induction ts arbitrary: s c)
  case Nil
  then show ?case by simp
next
  case (Cons u ts)
  show ?case
  proof (cases "needs_generation gc ls u")
    case False
    then show ?thesis using Cons.IH [of s c] Cons.prems by simp
  next
    case True
    obtain s' c' where st: "batch_try gen u (s, c) = (s', c')"
      by (cases "batch_try gen u (s, c)")
    have loop: "batch_loop gen gc ls (u # ts) (s, c) = batch_loop gen gc ls ts (s', c')"
      using True st by simp
    show ?thesis
    proof (cases "t \<in> set (filter (needs_generation gc ls) ts)")
      case True
      from Cons.IH [OF this, of s' c'] show ?thesis
        unfolding loop .
    next
      case False
      then have "t = u"
        using Cons.prems \<open>needs_generation gc ls u\<close> by auto
      then have "contentLoadingState s' (topic_text t) = Some False"
        using batch_try_settled(1) [of gen u s c] st by simp
      then show ?thesis
        unfolding loop by (rule batch_loop_keeps_settled)
    qed
  qed
qed

lemma session_topics_fields:
  "docId session_topics = Some ''doc1''" "selectedTemplate session_topics = ''tplA''"
  "generatedTopics session_topics = [topic_named ''Intro'', topic_named ''Scope'']"
  "generatedContent session_topics = [''Intro'' \<mapsto> ''Welcome'']"
  "contentLoadingState session_topics = Map.empty"
  "generateContentIsPending session_topics = False"
  "generateContentMutationCount session_topics = 0"
  "isGeneratingAll session_topics = False"
  "toasts session_topics = []" "calls session_topics = []"
  by (simp_all add: session_topics_def session0_def)

lemma show_nat_digits: "show_nat 1 = ''1''" "show_nat (Suc 0) = ''1''" "show_nat 2 = ''2''"
  by code_simp+

subsection \<open>The notifications of a batch\<close>

lemma mutateAsync_toasts:
  "toasts (fst (generateContentMutation_mutateAsync gen t s)) =
     toasts s @
       (case gen (calls s @ [generateContent_request s t]) of
          Inl error \<Rightarrow>
            [ToastError (''Failed to generate content for '' @ topic_text t @ '': '' @ error)]
        | Inr data \<Rightarrow>
            [ToastSuccess (''Content generated for: ''
               @ (if gen_topic data \<noteq> [] then gen_topic data else topic_text t))])"
  by (simp add: generateContentMutation_mutateAsync_def generateContentMutation_start_def
        generateContentMutation_settle_def generateContent_mutationFn_def
        generateContent_onMutate_def generateContent_onSuccess_def generateContent_onError_def
        generateContent_onSettled_def generateContent_request_def add_toast_def add_call_def
        Let_def split: sum.splits)

lemma batch_try_toasts:
  "toasts (fst (batch_try gen t (s, c))) =
     toasts s @ batch_notifications gen (calls s) (generateContent_request s) [t]"
proof -
  obtain s1 a where m: "generateContentMutation_mutateAsync gen t s = (s1, a)"
    by (cases "generateContentMutation_mutateAsync gen t s")
  have f: "gen (calls s @ [generateContent_request s t]) = a"
    using mutateAsync_frame(4) [of gen t s] m by simp
  have g: "toasts s1 = toasts s @
       (case a of
          Inl error \<Rightarrow>
            [ToastError (''Failed to generate content for '' @ topic_text t @ '': '' @ error)]
        | Inr data \<Rightarrow>
            [ToastSuccess (''Content generated for: ''
               @ (if gen_topic data \<noteq> [] then gen_topic data else topic_text t))])"
    using mutateAsync_toasts [of gen t s] m f by simp
  have b: "batch_try gen t (s, c) =
             (case a of Inr data \<Rightarrow> (s1, c + 1)
                      | Inl error \<Rightarrow> (add_toast (batch_failure_toast t) s1, c))"
    by (cases a) (simp_all add: batch_try_def m)
  show ?thesis
  proof (cases a)
    case (Inl e)
    then show ?thesis
      using f g by (simp add: b add_toast_def)
  next
    case (Inr d)
    then show ?thesis
      using f g by (simp add: b)
  qed
qed

lemma batch_notifications_append:
  "batch_notifications gen log req (ts @ us) =
     batch_notifications gen log req ts @ batch_notifications gen (log @ map req ts) req us"
  by (induction ts arbitrary: log) simp_all

lemma batch_loop_toasts:
  "toasts (fst (batch_loop gen gc ls ts (s, c))) =
     toasts s @ batch_notifications gen (calls s) (generateContent_request s)
                  (filter (needs_generation gc ls) ts)"
proof (induction ts arbitrary: s c)
  case Nil
  show ?case by simp
next
  case (Cons t ts)
  show ?case
  proof (cases "needs_generation gc ls t")
    case False
    then show ?thesis using Cons.IH [of s c] by simp
  next
    case True
    obtain s' c' where st: "batch_try gen t (s, c) = (s', c')"
      by (cases "batch_try gen t (s, c)")
    define todo where "todo = filter (needs_generation gc ls) ts"
    have f: "docId s' = docId s" "selectedTemplate s' = selectedTemplate s"
      "calls s' = calls s @ [generateContent_request s t]"
      using batch_try_frame(1-3) [of gen t s c] st by simp_all
    have r: "generateContent_request s' = generateContent_request s"
      by (rule generateContent_request_cong [OF f(1,2)])
    have tt: "toasts s' = toasts s @ batch_notifications gen (calls s) (generateContent_request s) [t]"
      using batch_try_toasts [of gen t s c] st by simp
    have loop: "batch_loop gen gc ls (t # ts) (s, c) = batch_loop gen gc ls ts (s', c')"
      using True st by simp
    have filt: "filter (needs_generation gc ls) (t # ts) = [t] @ todo"
      using True by (simp add: todo_def)
    have ih: "toasts (fst (batch_loop gen gc ls ts (s', c'))) =
                toasts s' @ batch_notifications gen (calls s') (generateContent_request s') todo"
      unfolding todo_def by (rule Cons.IH)
    show ?thesis
      unfolding loop filt ih r tt f(3) batch_notifications_append by simp
  qed
qed

lemma handleGenerateAllContent_toasts:
  assumes "generatedTopics s \<noteq> []"
  shows "toasts (handleGenerateAllContent gen s) =
           toasts s @ [ToastInfo ''Starting batch content generation...'']
             @ batch_notifications gen (calls s) (generateContent_request s) (batch_topics s)
             @ [if 0 < successes gen (calls s) (map (generateContent_request s) (batch_topics s))
                then ToastSuccess (''Batch content generation completed for ''
                       @ show_nat (successes gen (calls s)
                                     (map (generateContent_request s) (batch_topics s)))
                       @ '' topics.'')
                else ToastInfo
                  ''No new content was generated in batch (already exists or was generating).'']"
proof -
  define s1 where
    "s1 = add_toast (ToastInfo ''Starting batch content generation...'')
            (s\<lparr>isBatchGeneratingRef := True, isGeneratingAll := True\<rparr>)"
  define gc where "gc = generatedContent s"
  define ls where "ls = contentLoadingState s"
  define ts where "ts = generatedTopics s"
  obtain s2 n where loop: "batch_loop gen gc ls ts (s1, 0) = (s2, n)"
    by (cases "batch_loop gen gc ls ts (s1, 0)")
  have s1: "calls s1 = calls s" "generateContent_request s1 = generateContent_request s"
    "toasts s1 = toasts s @ [ToastInfo ''Starting batch content generation...'']"
    by (simp_all add: s1_def add_toast_def generateContent_request_def fun_eq_iff)
  have todo: "batch_topics s = filter (needs_generation gc ls) ts"
    by (simp add: batch_topics_def gc_def ls_def ts_def)
  have n: "n = successes gen (calls s) (map (generateContent_request s) (batch_topics s))"
    using batch_loop_calls [of gen gc ls ts s1 0] loop s1 todo by simp
  have t2: "toasts s2 = toasts s @ [ToastInfo ''Starting batch content generation...'']
              @ batch_notifications gen (calls s) (generateContent_request s) (batch_topics s)"
    using batch_loop_toasts [of gen gc ls ts s1 0] loop s1 todo by simp
  define final where
    "final = (if 0 < n
              then ToastSuccess (''Batch content generation completed for ''
                     @ show_nat n @ '' topics.'')
              else ToastInfo
                ''No new content was generated in batch (already exists or was generating).'')"
  have h: "handleGenerateAllContent gen s =
             add_toast final (s2\<lparr>isBatchGeneratingRef := False, isGeneratingAll := False\<rparr>)"
    using assms loop
    by (simp add: handleGenerateAllContent_def s1_def gc_def ls_def ts_def final_def)
  show ?thesis
    unfolding h by (simp add: add_toast_def t2 final_def n)
qed

lemma session_two_fields:
  "docId session_two = Some ''doc1''" "selectedTemplate session_two = ''tplA''"
  "generatedTopics session_two = [topic_named ''Intro'', topic_named ''Scope'']"
  "generatedContent session_two = Map.empty"
  "contentLoadingState session_two = Map.empty"
  "generateContentIsPending session_two = False"
  "isGeneratingAll session_two = False"
  "toasts session_two = []" "calls session_two = []"
  by (simp_all add: session_two_def session_topics_fields)

lemma plain_names:
  "''Intro'' \<notin> set object_prototype_names" "''Scope'' \<notin> set object_prototype_names"
  "''constructor'' \<in> set object_prototype_names"
  by (simp_all add: object_prototype_names_def)

lemma session_two_batch:
  "batch_topics session_two = [topic_named ''Intro'', topic_named ''Scope'']"
  "generateContent_request session_two (topic_named ''Intro'') =
     GenerateContentAPI (Some ''doc1'') ''tplA'' ''Intro''"
  "generateContent_request session_two (topic_named ''Scope'') =
     GenerateContentAPI (Some ''doc1'') ''tplA'' ''Scope''"
  by (simp_all add: batch_topics_def session_two_fields needs_generation_def truthy_content_def
        truthy_loading_def generateContent_request_def topic_named_def plain_names)



subsection \<open>The requests of a batch\<close>

lemma handleGenerateAllContent_calls:
  "calls (handleGenerateAllContent gen s) =
     calls s @ map (generateContent_request s) (batch_topics s)"
proof (cases "generatedTopics s = []")
  case True
  then show ?thesis
    by (simp add: handleGenerateAllContent_def add_toast_def batch_topics_def)
next
  case False
  define s1 where
    "s1 = add_toast (ToastInfo ''Starting batch content generation...'')
            (s\<lparr>isBatchGeneratingRef := True, isGeneratingAll := True\<rparr>)"
  define gc where "gc = generatedContent s"
  define ls where "ls = contentLoadingState s"
  define ts where "ts = generatedTopics s"
  obtain s2 n where loop: "batch_loop gen gc ls ts (s1, 0) = (s2, n)"
    by (cases "batch_loop gen gc ls ts (s1, 0)")
  have s1: "calls s1 = calls s" "generateContent_request s1 = generateContent_request s"
    by (simp_all add: s1_def add_toast_def generateContent_request_def fun_eq_iff)
  have todo: "batch_topics s = filter (needs_generation gc ls) ts"
    by (simp add: batch_topics_def gc_def ls_def ts_def)
  have c2: "calls s2 = calls s @ map (generateContent_request s) (batch_topics s)"
    using batch_loop_calls [of gen gc ls ts s1 0] loop s1 todo by simp
  have "calls (handleGenerateAllContent gen s) = calls s2"
    using False loop
    by (simp add: handleGenerateAllContent_def s1_def gc_def ls_def ts_def add_toast_def Let_def)
  then show ?thesis
    using c2 by simp
qed

lemma handleGenerateAllContent_settled:
  assumes "t \<in> set (batch_topics s)"
  shows "contentLoadingState (handleGenerateAllContent gen s) (topic_text t) = Some False"
proof -
  define s1 where
    "s1 = add_toast (ToastInfo ''Starting batch content generation...'')
            (s\<lparr>isBatchGeneratingRef := True, isGeneratingAll := True\<rparr>)"
  define gc where "gc = generatedContent s"
  define ls where "ls = contentLoadingState s"
  define ts where "ts = generatedTopics s"
  obtain s2 n where loop: "batch_loop gen gc ls ts (s1, 0) = (s2, n)"
    by (cases "batch_loop gen gc ls ts (s1, 0)")
  have todo: "batch_topics s = filter (needs_generation gc ls) ts"
    by (simp add: batch_topics_def gc_def ls_def ts_def)
  have ne: "generatedTopics s \<noteq> []"
    using assms by (auto simp add: batch_topics_def)
  have "contentLoadingState (handleGenerateAllContent gen s) = contentLoadingState s2"
    using ne loop
    by (simp add: handleGenerateAllContent_def s1_def gc_def ls_def ts_def add_toast_def Let_def)
  moreover have "contentLoadingState (fst (batch_loop gen gc ls ts (s1, 0))) (topic_text t)
                   = Some False"
    by (rule batch_loop_settled) (use assms todo in simp)
  ultimately show ?thesis
    using loop by simp
qed

lemma handleGenerateAllContent_failure_toast:
  assumes "k < length (batch_topics s)"
    and "gen (calls s @ map (generateContent_request s) (take (Suc k) (batch_topics s))) = Inl e"
  shows "batch_failure_toast (batch_topics s ! k) \<in> set (toasts (handleGenerateAllContent gen s))"
proof -
  define s1 where
    "s1 = add_toast (ToastInfo ''Starting batch content generation...'')
            (s\<lparr>isBatchGeneratingRef := True, isGeneratingAll := True\<rparr>)"
  define gc where "gc = generatedContent s"
  define ls where "ls = contentLoadingState s"
  define ts where "ts = generatedTopics s"
  obtain s2 n where loop: "batch_loop gen gc ls ts (s1, 0) = (s2, n)"
    by (cases "batch_loop gen gc ls ts (s1, 0)")
  have s1: "calls s1 = calls s" "generateContent_request s1 = generateContent_request s"
    by (simp_all add: s1_def add_toast_def generateContent_request_def fun_eq_iff)
  have todo: "batch_topics s = filter (needs_generation gc ls) ts"
    by (simp add: batch_topics_def gc_def ls_def ts_def)
  have ne: "generatedTopics s \<noteq> []"
    using assms(1) by (auto simp add: batch_topics_def)
  have "toasts (handleGenerateAllContent gen s) = toasts s2 @ [last (toasts (handleGenerateAllContent gen s))]"
    using ne loop
    by (simp add: handleGenerateAllContent_def s1_def gc_def ls_def ts_def add_toast_def Let_def)
  then have ht: "set (toasts s2) \<subseteq> set (toasts (handleGenerateAllContent gen s))"
    by (metis set_append sup_ge1)
  have "batch_failure_toast (filter (needs_generation gc ls) ts ! k)
          \<in> set (toasts (fst (batch_loop gen gc ls ts (s1, 0))))"
    by (rule batch_loop_failure_toast) (use assms s1 todo in simp_all)
  then show ?thesis
    using ht loop todo by auto
qed

subsection \<open>The guard of topic generation\<close>

text \<open>
  Without a confirmed scope \<open>handleGenerateTopics\<close> only shows an error: it sends no
  request and changes nothing else.
\<close>

lemma handleGenerateTopics_guard:
  "\<not> scope_confirmed (scopeData s) \<Longrightarrow>
     handleGenerateTopics s =
       add_toast (ToastError
         (if \<not> truthy_docId (docId s) \<or> selectedTemplate s = []
          then ''Cannot generate topics without a document and selected template.''
          else ''Scope must be confirmed before generating topics.'')) s
   \<and> calls (handleGenerateTopics s) = calls s"
  by (auto simp add: handleGenerateTopics_def add_toast_def scope_confirmed_def
        split: option.splits)

subsection \<open>The example sessions\<close>

lemma session_constructor_fields:
  "docId session_constructor = Some ''doc1''" "selectedTemplate session_constructor = ''tplA''"
  "generatedTopics session_constructor = [topic_named ''constructor'', topic_named ''Scope'']"
  "generatedContent session_constructor = Map.empty"
  "contentLoadingState session_constructor = Map.empty"
  "calls session_constructor = []"
  by (simp_all add: session_constructor_def session_two_fields)

lemma session_generating_fields:
  "contentLoadingState session_generating ''Scope'' = Some True"
  "calls session_generating = [GenerateContentAPI (Some ''doc1'') ''tplA'' ''Scope'']"
  "generateContentMutationCount session_generating = 1"
  by (simp_all add: session_generating_def generateContentMutation_start_def
        generateContent_mutationFn_def generateContent_onMutate_def add_call_def
        generateContent_request_def session_topics_fields topic_named_def)

lemma session_overlap_fields:
  "contentLoadingState session_overlap ''Intro'' = Some True"
  "\<not> generateContentIsPending session_overlap"
  "docId session_overlap = Some ''doc1''"
  "selectedTemplate session_overlap = ''tplA''"
  "calls session_overlap =
     [GenerateContentAPI (Some ''doc1'') ''tplA'' ''Intro'',
      GenerateContentAPI (Some ''doc1'') ''tplA'' ''Scope'']"
  by code_simp+

lemma session_late_topics_fields:
  "docId session_late_topics = Some ''doc2''"
  "selectedTemplate session_late_topics = ''tplA''"
  "scopeData session_late_topics = None"
  "analysisStep session_late_topics = 4"
  "generatedTopics session_late_topics = [topic_named ''Intro'', topic_named ''Scope'']"
  "generatedContent session_late_topics ''Intro'' = None"
  "contentLoadingState session_late_topics ''Intro'' = None"
  "\<not> generateContentIsPending session_late_topics"
  "\<not> isGeneratingAll session_late_topics"
  "calls session_late_topics =
     [GenerateTopicsAPI (Some ''doc1'') ''tplA'', GetDocumentStatusAPI (Some ''doc2'')]"
  by code_simp+

section \<open>The claims\<close>

text \<open>
  C1. The claim is that re-entering a document whose confirmed scope and topics are
  cached goes to the content-ready stage without an extract-scope, confirm-scope or
  generate-topics request. The page is evaluated on such a re-entry, \<open>session_revisit\<close>:
  the cache holds the status \<open>processed\<close>, the confirmed scope and the topics of \<open>tplA\<close>.
  The status effect reads the cached status in the first commit and the effect on
  \<open>docId\<close>, which runs after it, resets what it set; the status request is sent twice
  and its answer, equal to the cached one, runs no effect. The page is at stage 0 with
  no scope. Choosing \<open>tplA\<close> loads no topics, and the start button sends the
  extract-scope request.
\<close>

theorem resume_lost_on_revisit:
  "documentStatusCache session_revisit (docId session_revisit) = Some (status_of ''processed'')
   \<and> map_option is_confirmed (documentScopeCache session_revisit (docId session_revisit)) = Some True
   \<and> generatedTopicsCache session_revisit (docId session_revisit, ''tplA'') =
       Some [topic_named ''Intro'', topic_named ''Scope'']
   \<and> analysisStep revisit_opened = 0
   \<and> scopeData revisit_opened = None
   \<and> calls revisit_opened =
       [GetDocumentStatusAPI (Some ''doc1''), GetDocumentStatusAPI (Some ''doc1'')]
   \<and> analysisStep revisit_template = 0
   \<and> generatedTopics revisit_template = []
   \<and> calls revisit_started =
       [GetDocumentStatusAPI (Some ''doc1''), GetDocumentStatusAPI (Some ''doc1''),
        ExtractDocumentScopeAPI (Some ''doc1'') True]"
  by code_simp

text \<open>
  C2, as amended. For topics whose texts are not names of members of \<open>Object.prototype\<close>
  and none of which is in flight, \<open>handleGenerateAllContent\<close> sends exactly one
  generate-content request per topic without cached content, in topic order, whatever
  the service answers; that is \<open>N - K\<close> requests for \<open>N\<close> topics of which \<open>K\<close> have
  content. When it ends every request has settled. Each failure is reported by its own
  error notification, and the number in the closing notification is the number of
  successful generations.
\<close>

theorem generateAll_requests:
  assumes names: "\<forall>t \<in> set (generatedTopics s). topic_text t \<notin> set object_prototype_names"
    and idle: "\<forall>t \<in> set (generatedTopics s). contentLoadingState s (topic_text t) \<noteq> Some True"
  shows "calls (handleGenerateAllContent gen s) =
           calls s @ map (generateContent_request s) (batch_topics s)
   \<and> batch_topics s =
       filter (\<lambda>t. \<not> has_cached_content (generatedContent s) (topic_text t)) (generatedTopics s)
   \<and> length (batch_topics s) =
       length (generatedTopics s)
         - length (filter (\<lambda>t. has_cached_content (generatedContent s) (topic_text t))
                     (generatedTopics s))
   \<and> (generatedTopics s \<noteq> [] \<longrightarrow>
        last (toasts (handleGenerateAllContent gen s)) =
          (if 0 < successes gen (calls s) (map (generateContent_request s) (batch_topics s))
           then ToastSuccess (''Batch content generation completed for ''
                  @ show_nat (successes gen (calls s)
                                (map (generateContent_request s) (batch_topics s)))
                  @ '' topics.'')
           else ToastInfo
                  ''No new content was generated in batch (already exists or was generating).''))
   \<and> (\<forall>k e. k < length (batch_topics s) \<longrightarrow>
          gen (calls s @ map (generateContent_request s) (take (Suc k) (batch_topics s))) = Inl e \<longrightarrow>
          batch_failure_toast (batch_topics s ! k) \<in> set (toasts (handleGenerateAllContent gen s)))
   \<and> (\<forall>t \<in> set (batch_topics s).
          contentLoadingState (handleGenerateAllContent gen s) (topic_text t) = Some False)"
proof -
  have "batch_topics s =
       filter (\<lambda>t. \<not> has_cached_content (generatedContent s) (topic_text t)) (generatedTopics s)"
    unfolding batch_topics_def using names idle by (rule batch_filter_plain)
  moreover have "length (batch_topics s) =
       length (generatedTopics s)
         - length (filter (\<lambda>t. has_cached_content (generatedContent s) (topic_text t))
                     (generatedTopics s))"
    unfolding batch_topics_def using names idle by (rule batch_size)
  moreover have "last (toasts (handleGenerateAllContent gen s)) =
          (if 0 < successes gen (calls s) (map (generateContent_request s) (batch_topics s))
           then ToastSuccess (''Batch content generation completed for ''
                  @ show_nat (successes gen (calls s)
                                (map (generateContent_request s) (batch_topics s)))
                  @ '' topics.'')
           else ToastInfo
                  ''No new content was generated in batch (already exists or was generating).'')"
    if "generatedTopics s \<noteq> []"
    unfolding handleGenerateAllContent_toasts [OF that] by simp
  ultimately show ?thesis
    using handleGenerateAllContent_calls [of gen s]
      handleGenerateAllContent_failure_toast [of _ s gen]
      handleGenerateAllContent_settled [of _ s gen]
    by (intro conjI impI allI ballI) assumption+
qed

text \<open>Witness of C2: \<open>Intro\<close> has content, \<open>Scope\<close> has none; one request, for \<open>Scope\<close>.\<close>

theorem generateAll_requests_witness:
  "calls (handleGenerateAllContent gen_up session_topics) =
     [GenerateContentAPI (Some ''doc1'') ''tplA'' ''Scope'']
   \<and> length (batch_topics session_topics) = 2 - 1
   \<and> last (toasts (handleGenerateAllContent gen_up session_topics)) =
       ToastSuccess ''Batch content generation completed for 1 topics.''"
proof -
  have names: "\<forall>t \<in> set (generatedTopics session_topics).
                 topic_text t \<notin> set object_prototype_names"
    by (simp add: session_topics_fields topic_named_def plain_names)
  have idle: "\<forall>t \<in> set (generatedTopics session_topics).
             contentLoadingState session_topics (topic_text t) \<noteq> Some True"
    by (simp add: session_topics_fields)
  have b: "batch_topics session_topics = [topic_named ''Scope'']"
    by (simp add: batch_topics_def session_topics_fields needs_generation_def truthy_content_def
          truthy_loading_def topic_named_def plain_names)
  have r: "map (generateContent_request session_topics) [topic_named ''Scope''] =
             [GenerateContentAPI (Some ''doc1'') ''tplA'' ''Scope'']"
    by (simp add: generateContent_request_def session_topics_fields topic_named_def)
  have n: "successes gen_up [] [GenerateContentAPI (Some ''doc1'') ''tplA'' ''Scope''] = 1"
    by (simp add: gen_up_def)
  have ne: "generatedTopics session_topics \<noteq> []"
    by (simp add: session_topics_fields)
  note x = generateAll_requests [OF names idle, of gen_up]
  have "calls (handleGenerateAllContent gen_up session_topics) =
          [GenerateContentAPI (Some ''doc1'') ''tplA'' ''Scope'']"
    using x [THEN conjunct1] r by (simp add: b session_topics_fields)
  moreover have "length (batch_topics session_topics) = 2 - 1"
    by (simp add: b)
  moreover have "last (toasts (handleGenerateAllContent gen_up session_topics)) =
       ToastSuccess ''Batch content generation completed for 1 topics.''"
  proof -
    have m: "successes gen_up (calls session_topics)
               (map (generateContent_request session_topics) (batch_topics session_topics)) = 1"
      unfolding b r using n by (simp add: session_topics_fields)
    show ?thesis
      using x [THEN conjunct2, THEN conjunct2, THEN conjunct2, THEN conjunct1] ne
      unfolding m by (simp add: show_nat_digits)
  qed
  ultimately show ?thesis
    by (intro conjI)
qed

text \<open>
  Counterexample to C2 as stated: when both requests fail, the notifications are the
  two errors of each topic and a closing one that carries no count; when both succeed,
  the closing notification counts 2. The count is of successes, not of failures. And of
  the two topics \<open>constructor\<close> and \<open>Scope\<close>, neither with content, only \<open>Scope\<close> is
  requested: the lookup under \<open>constructor\<close> finds the inherited member.
\<close>

theorem generateAll_counterexample:
  "toasts (handleGenerateAllContent gen_down session_two) =
     [ToastInfo ''Starting batch content generation...'',
      ToastError ''Failed to generate content for Intro: Network Error'',
      ToastError ''Failed to generate content for Intro during batch operation.'',
      ToastError ''Failed to generate content for Scope: Network Error'',
      ToastError ''Failed to generate content for Scope during batch operation.'',
      ToastInfo ''No new content was generated in batch (already exists or was generating).'']
   \<and> last (toasts (handleGenerateAllContent gen_up session_two)) =
       ToastSuccess ''Batch content generation completed for 2 topics.''
   \<and> length (generatedTopics session_constructor) = 2
   \<and> filter (\<lambda>t. has_cached_content (generatedContent session_constructor) (topic_text t))
        (generatedTopics session_constructor) = []
   \<and> calls (handleGenerateAllContent gen_up session_constructor) =
       [GenerateContentAPI (Some ''doc1'') ''tplA'' ''Scope'']"
proof -
  have ne: "generatedTopics session_two \<noteq> []"
    by (simp add: session_two_fields)
  have "toasts (handleGenerateAllContent gen_down session_two) =
     [ToastInfo ''Starting batch content generation...'',
      ToastError ''Failed to generate content for Intro: Network Error'',
      ToastError ''Failed to generate content for Intro during batch operation.'',
      ToastError ''Failed to generate content for Scope: Network Error'',
      ToastError ''Failed to generate content for Scope during batch operation.'',
      ToastInfo ''No new content was generated in batch (already exists or was generating).'']"
    unfolding handleGenerateAllContent_toasts [OF ne] session_two_batch session_two_fields
    by (simp add: session_two_batch gen_down_def batch_failure_toast_def topic_named_def)
  moreover have "last (toasts (handleGenerateAllContent gen_up session_two)) =
       ToastSuccess ''Batch content generation completed for 2 topics.''"
    unfolding handleGenerateAllContent_toasts [OF ne] session_two_batch session_two_fields
    by (simp add: session_two_batch gen_up_def show_nat_digits numeral_2_eq_2 [symmetric])
  moreover have "length (generatedTopics session_constructor) = 2"
    by (simp add: session_constructor_fields)
  moreover have "filter (\<lambda>t. has_cached_content (generatedContent session_constructor) (topic_text t))
        (generatedTopics session_constructor) = []"
    by (simp add: session_constructor_fields has_cached_content_def)
  moreover have "batch_topics session_constructor = [topic_named ''Scope'']"
    by (simp add: batch_topics_def session_constructor_fields needs_generation_def
          truthy_content_def truthy_loading_def topic_named_def plain_names)
  then have "calls (handleGenerateAllContent gen_up session_constructor) =
       [GenerateContentAPI (Some ''doc1'') ''tplA'' ''Scope'']"
    unfolding handleGenerateAllContent_calls
    by (simp add: session_constructor_fields generateContent_request_def topic_named_def)
  ultimately show ?thesis
    by (intro conjI)
qed

text \<open>
  C3. A topic is in the in-flight set when \<open>contentLoadingState[topic.text]\<close> is truthy,
  the test of lines 363 and 738. For such a topic a click on its button changes nothing
  and sends nothing, the batch passes over it, and no request that a batch sends is the
  one for that topic. For every topic and from every state, a request that starts sets
  the topic's entry and sends the request, and its answer, an error or data, leaves the
  entry false.
\<close>

theorem in_flight_request_not_repeated:
  "(truthy_loading (contentLoadingState s) (topic_text t) \<longrightarrow>
      click_topic_button t s = Inr s
    \<and> (\<forall>u \<in> set (batch_topics s). topic_text u \<noteq> topic_text t)
    \<and> generateContent_request s t
         \<notin> set (drop (length (calls s)) (calls (handleGenerateAllContent gen s))))
   \<and> contentLoadingState (generateContentMutation_start u s) (topic_text u) = Some True
   \<and> calls (generateContentMutation_start u s) = calls s @ [generateContent_request s u]
   \<and> contentLoadingState (generateContentMutation_settle m answer u s') (topic_text u)
       = Some False"
proof -
  have skip: "\<forall>u \<in> set (batch_topics s). topic_text u \<noteq> topic_text t"
    if "truthy_loading (contentLoadingState s) (topic_text t)"
    using that by (auto simp add: batch_topics_def needs_generation_def)
  have "generateContent_request s t
         \<notin> set (drop (length (calls s)) (calls (handleGenerateAllContent gen s)))"
    if "truthy_loading (contentLoadingState s) (topic_text t)"
    using skip [OF that]
    by (auto simp add: handleGenerateAllContent_calls generateContent_request_def)
  moreover have "click_topic_button t s = Inr s"
    if "truthy_loading (contentLoadingState s) (topic_text t)"
    using that by (simp add: click_topic_button_def topic_button_disabled_def)
  moreover have "contentLoadingState (generateContentMutation_start u s) (topic_text u) = Some True"
    by (simp add: generateContentMutation_start_def generateContent_mutationFn_def
          generateContent_onMutate_def add_call_def)
  moreover have "calls (generateContentMutation_start u s) = calls s @ [generateContent_request s u]"
    by (simp add: generateContentMutation_start_def generateContent_mutationFn_def
          generateContent_onMutate_def add_call_def generateContent_request_def)
  moreover have "contentLoadingState (generateContentMutation_settle m answer u s') (topic_text u)
       = Some False"
    by (simp add: generateContentMutation_settle_def generateContent_onSettled_def Let_def)
  ultimately show ?thesis
    using skip by blast
qed

text \<open>
  Witness of C3: in \<open>session_overlap\<close> the topic \<open>Intro\<close> is in flight while the
  mutation observer is not pending; the click and the batch send nothing for it. The
  request for \<open>Scope\<close> started from \<open>session_topics\<close> sets the entry, and either answer
  clears it.
\<close>

theorem in_flight_request_not_repeated_witness:
  "truthy_loading (contentLoadingState session_overlap) ''Intro''
   \<and> \<not> generateContentIsPending session_overlap
   \<and> click_topic_button (topic_named ''Intro'') session_overlap = Inr session_overlap
   \<and> GenerateContentAPI (Some ''doc1'') ''tplA'' ''Intro''
        \<notin> set (drop 2 (calls (handleGenerateAllContent gen_up session_overlap)))
   \<and> contentLoadingState session_topics ''Scope'' = None
   \<and> contentLoadingState session_generating ''Scope'' = Some True
   \<and> calls session_generating = [GenerateContentAPI (Some ''doc1'') ''tplA'' ''Scope'']
   \<and> contentLoadingState
        (generateContentMutation_settle 1 (Inl ''Network Error'') (topic_named ''Scope'')
           session_generating) ''Scope'' = Some False
   \<and> contentLoadingState
        (generateContentMutation_settle 1 (gen_up (calls session_generating))
           (topic_named ''Scope'') session_generating) ''Scope'' = Some False"
proof -
  have t: "topic_text (topic_named ''Scope'') = ''Scope''"
    "topic_text (topic_named ''Intro'') = ''Intro''"
    by (simp_all add: topic_named_def)
  have h: "truthy_loading (contentLoadingState session_overlap)
             (topic_text (topic_named ''Intro''))"
    by (simp add: t session_overlap_fields truthy_loading_def)
  note a = in_flight_request_not_repeated
    [of session_overlap "topic_named ''Intro''" gen_up "topic_named ''Scope''" 1
        "Inl ''Network Error''" session_generating]
  note b = in_flight_request_not_repeated
    [of session_topics "topic_named ''Scope''" gen_up "topic_named ''Scope''" 1
        "gen_up (calls session_generating)" session_generating]
  have c1: "click_topic_button (topic_named ''Intro'') session_overlap = Inr session_overlap"
    using a h by blast
  have "generateContent_request session_overlap (topic_named ''Intro'')
          \<notin> set (drop (length (calls session_overlap))
                     (calls (handleGenerateAllContent gen_up session_overlap)))"
    using a h by blast
  then have c2: "GenerateContentAPI (Some ''doc1'') ''tplA'' ''Intro''
        \<notin> set (drop 2 (calls (handleGenerateAllContent gen_up session_overlap)))"
    by (simp add: generateContent_request_def session_overlap_fields t numeral_2_eq_2)
  have c3: "contentLoadingState session_topics ''Scope'' = None"
    by (simp add: session_topics_fields)
  have c4: "contentLoadingState session_generating ''Scope'' = Some True"
    using b t by (simp add: session_generating_def)
  have c5: "calls session_generating = [GenerateContentAPI (Some ''doc1'') ''tplA'' ''Scope'']"
    using b by (simp add: session_generating_def session_topics_fields
          generateContent_request_def topic_named_def)
  have c6: "contentLoadingState
        (generateContentMutation_settle 1 (Inl ''Network Error'') (topic_named ''Scope'')
           session_generating) ''Scope'' = Some False"
    using a t by simp
  have c7: "contentLoadingState
        (generateContentMutation_settle 1 (gen_up (calls session_generating))
           (topic_named ''Scope'') session_generating) ''Scope'' = Some False"
    using b t by simp
  from h t session_overlap_fields(2) c1 c2 c3 c4 c5 c6 c7 show ?thesis
    by simp
qed

text \<open>
  C4. For a message that is sent (not blank, with a document and a template), the handler
  appends the user's turn and sends the request with the transcript as it was before
  that turn; a successful answer appends the assistant's turn; a failure removes the
  user's turn, so that the transcript is the one before the send, and shows the error.
\<close>

theorem chat_send_rollback:
  "trim (currentChatMessage s) \<noteq> [] \<Longrightarrow> truthy_docId (docId s) \<Longrightarrow> selectedTemplate s \<noteq> [] \<Longrightarrow>
     chatHistory (handleSendChatMessage s) =
       chatHistory s @ [\<lparr>role = User, content = currentChatMessage s\<rparr>]
   \<and> calls (handleSendChatMessage s) =
       calls s @ [ChatWithDocumentAPI (docId s) (selectedTemplate s) (currentChatMessage s)
                    (chatHistory s)]
   \<and> chatHistory (chatMutation_settle (Inr response) (handleSendChatMessage s)) =
       chatHistory s @ [\<lparr>role = User, content = currentChatMessage s\<rparr>,
                        \<lparr>role = Assistant, content = response\<rparr>]
   \<and> chatHistory (chatMutation_settle (Inl e) (handleSendChatMessage s)) = chatHistory s
   \<and> toasts (chatMutation_settle (Inl e) (handleSendChatMessage s)) =
       toasts s @ [ToastError (''Chat error: '' @ e)]
   \<and> calls (chatMutation_settle (Inl e) (handleSendChatMessage s)) =
       calls (handleSendChatMessage s)
   \<and> send_chat chat s =
       chatMutation_settle (chat (calls (handleSendChatMessage s))) (handleSendChatMessage s)"
  by (simp add: handleSendChatMessage_def chatMutation_mutate_def chat_mutationFn_def
        chat_onMutate_def chatMutation_settle_def chat_onSuccess_def chat_onError_def
        add_toast_def add_call_def send_chat_def Let_def historyForAPI_copy)

text \<open>Witness of C4: a second question after one exchange, failed and answered.\<close>

theorem chat_send_rollback_witness:
  "chatHistory (handleSendChatMessage session_chat) =
     [\<lparr>role = User, content = ''Hello''\<rparr>, \<lparr>role = Assistant, content = ''Hi''\<rparr>,
      \<lparr>role = User, content = ''What is the scope?''\<rparr>]
   \<and> calls (handleSendChatMessage session_chat) =
       [ChatWithDocumentAPI (Some ''doc1'') ''tplA'' ''What is the scope?''
          [\<lparr>role = User, content = ''Hello''\<rparr>, \<lparr>role = Assistant, content = ''Hi''\<rparr>]]
   \<and> chatHistory (send_chat (\<lambda>log. Inl ''Network Error'') session_chat) =
       [\<lparr>role = User, content = ''Hello''\<rparr>, \<lparr>role = Assistant, content = ''Hi''\<rparr>]
   \<and> toasts (send_chat (\<lambda>log. Inl ''Network Error'') session_chat) =
       [ToastError ''Chat error: Network Error'']
   \<and> chatHistory (send_chat (\<lambda>log. Inr ''Pages 3 and 4'') session_chat) =
       [\<lparr>role = User, content = ''Hello''\<rparr>, \<lparr>role = Assistant, content = ''Hi''\<rparr>,
        \<lparr>role = User, content = ''What is the scope?''\<rparr>,
        \<lparr>role = Assistant, content = ''Pages 3 and 4''\<rparr>]"
proof -
  have f: "chatHistory session_chat =
             [\<lparr>role = User, content = ''Hello''\<rparr>, \<lparr>role = Assistant, content = ''Hi''\<rparr>]"
    "currentChatMessage session_chat = ''What is the scope?''"
    "docId session_chat = Some ''doc1''" "selectedTemplate session_chat = ''tplA''"
    "toasts session_chat = []" "calls session_chat = []"
    by (simp_all add: session_chat_def session_topics_def session0_def)
  have "dropWhile isWhiteSpace ''What is the scope?'' = ''What is the scope?''"
    by (simp add: isWhiteSpace_def)
  moreover have "dropWhile isWhiteSpace (rev ''What is the scope?'') = rev ''What is the scope?''"
    by (simp add: isWhiteSpace_def)
  ultimately have "trim ''What is the scope?'' = ''What is the scope?''"
    by (simp only: trim_def rev_rev_ident)
  then have h: "trim (currentChatMessage session_chat) \<noteq> []"
    "truthy_docId (docId session_chat)" "selectedTemplate session_chat \<noteq> []"
    by (simp_all add: f truthy_docId_def)
  show ?thesis
    using chat_send_rollback [OF h, of _ "''Network Error''" "\<lambda>log. Inl ''Network Error''"]
      chat_send_rollback [OF h, of "''Pages 3 and 4''" _ "\<lambda>log. Inr ''Pages 3 and 4''"]
    by (simp add: f)
qed

text \<open>
  C5. For a page with a document the status query is enabled, so it fetches at once;
  \<open>refetchInterval\<close> answers 5000 ms before any data and for every status other than
  \<open>processed\<close> and \<open>error\<close>, and the stop signal for those two.
\<close>

theorem polling_policy:
  "truthy_docId (docId s) \<Longrightarrow>
     documentStatus_enabled s
   \<and> calls (documentStatus_queryFn s) = calls s @ [GetDocumentStatusAPI (docId s)]
   \<and> refetchInterval None = Some 5000
   \<and> refetchInterval (Some ds) =
        (if status ds = ''processed'' \<or> status ds = ''error'' then None else Some 5000)"
  by (simp add: documentStatus_enabled_def documentStatus_queryFn_def add_call_def
        refetchInterval_def)

text \<open>Witness of C5: the page of \<open>doc1\<close> and the four statuses.\<close>

theorem polling_policy_witness:
  "truthy_docId (docId session0)
   \<and> documentStatus_enabled session0
   \<and> calls (documentStatus_queryFn session0) = [GetDocumentStatusAPI (Some ''doc1'')]
   \<and> refetchInterval (Some (status_of ''uploading'')) = Some 5000
   \<and> refetchInterval (Some (status_of ''processing'')) = Some 5000
   \<and> refetchInterval (Some (status_of ''processed'')) = None
   \<and> refetchInterval (Some (status_of ''error'')) = None"
proof -
  have h: "truthy_docId (docId session0)"
    by (simp add: session0_def truthy_docId_def)
  show ?thesis
    using h polling_policy [OF h, of "status_of ''uploading''"]
      polling_policy [OF h, of "status_of ''processing''"]
      polling_policy [OF h, of "status_of ''processed''"]
      polling_policy [OF h, of "status_of ''error''"]
    by (simp add: status_of_def session0_def)
qed

text \<open>
  C6. The claim is that topic generation, and with it content generation, is out of
  reach while the scope is not confirmed. \<open>handleGenerateTopics\<close> keeps to it
  (\<open>handleGenerateTopics_guard\<close>). The page is evaluated on \<open>session_late_topics\<close>: topics
  are requested for \<open>doc1\<close> with a confirmed scope, the route changes to \<open>doc2\<close>, and the
  answer arrives afterwards. \<open>onSuccess\<close> installs the topics and sets stage 4 where the
  effect on \<open>docId\<close> had cleared the scope: the page shows the topics of \<open>doc1\<close> with no
  scope, the button of \<open>Intro\<close> is enabled, and a click on it sends a generate-content
  request for \<open>doc2\<close>.
\<close>

theorem content_generation_without_scope:
  "scope_confirmed (scopeData session_confirmed)
   \<and> calls session_requested = [GenerateTopicsAPI (Some ''doc1'') ''tplA'']
   \<and> docId session_late_topics = Some ''doc2''
   \<and> scopeData session_late_topics = None
   \<and> analysisStep session_late_topics = 4
   \<and> generatedTopics session_late_topics = [topic_named ''Intro'', topic_named ''Scope'']
   \<and> \<not> topic_button_disabled (topic_named ''Intro'') session_late_topics
   \<and> click_topic_button (topic_named ''Intro'') session_late_topics =
       Inr (generateContentMutation_start (topic_named ''Intro'') session_late_topics)
   \<and> calls (generateContentMutation_start (topic_named ''Intro'') session_late_topics) =
       [GenerateTopicsAPI (Some ''doc1'') ''tplA'', GetDocumentStatusAPI (Some ''doc2''),
        GenerateContentAPI (Some ''doc2'') ''tplA'' ''Intro'']"
proof -
  have t: "topic_text (topic_named ''Intro'') = ''Intro''"
    by (simp add: topic_named_def)
  have c: "\<not> truthy_content (generatedContent session_late_topics) ''Intro''"
    "\<not> truthy_loading (contentLoadingState session_late_topics) ''Intro''"
    by (simp_all add: truthy_content_def truthy_loading_def session_late_topics_fields
          plain_names)
  have "scope_confirmed (scopeData session_confirmed)"
    by code_simp
  moreover have "calls session_requested = [GenerateTopicsAPI (Some ''doc1'') ''tplA'']"
    by code_simp
  moreover have d: "\<not> topic_button_disabled (topic_named ''Intro'') session_late_topics"
    by (simp add: topic_button_disabled_def t c session_late_topics_fields)
  moreover have "click_topic_button (topic_named ''Intro'') session_late_topics =
       Inr (generateContentMutation_start (topic_named ''Intro'') session_late_topics)"
    by (simp add: click_topic_button_def d handleGenerateOrViewContent_def t c
          session_late_topics_fields)
  moreover have "calls (generateContentMutation_start (topic_named ''Intro'') session_late_topics) =
       [GenerateTopicsAPI (Some ''doc1'') ''tplA'', GetDocumentStatusAPI (Some ''doc2''),
        GenerateContentAPI (Some ''doc2'') ''tplA'' ''Intro'']"
    by (simp add: generateContentMutation_start_def generateContent_mutationFn_def
          generateContent_onMutate_def add_call_def generateContent_request_def t
          session_late_topics_fields)
  ultimately show ?thesis
    using session_late_topics_fields(1,3,4,5) by (intro conjI)
qed



text \<open>
  C8. For an open draft whose topic has a server id (\<open>topic.id\<close> is truthy: a number
  other than 0), saving writes the draft to the content map and to the query cache and
  sends the save request; when that request fails, both still hold the draft and the
  failure is shown.
\<close>

theorem failed_save_keeps_draft:
  "currentTopicForModal s = Some t \<Longrightarrow> truthy_docId (docId s) \<Longrightarrow>
   topic_id t = Some i \<Longrightarrow> i \<noteq> 0 \<Longrightarrow>
     generatedContent (handleSaveModalContent s) (topic_text t) = Some (modalContent s)
   \<and> generatedContentCache (handleSaveModalContent s) (docId s, selectedTemplate s, topic_text t)
        = Some (modalContent s)
   \<and> calls (handleSaveModalContent s) =
        calls s @ [SaveDocumentContentAPI (docId s) i (modalContent s)]
   \<and> toasts (handleSaveModalContent s) = toasts s
   \<and> generatedContent
        (saveContentMutation_settle (Inl e) t (modalContent s) (handleSaveModalContent s))
        (topic_text t) = Some (modalContent s)
   \<and> generatedContentCache
        (saveContentMutation_settle (Inl e) t (modalContent s) (handleSaveModalContent s))
        (docId s, selectedTemplate s, topic_text t) = Some (modalContent s)
   \<and> toasts (saveContentMutation_settle (Inl e) t (modalContent s) (handleSaveModalContent s)) =
        toasts s @ [ToastError (''Failed to save content for \"'' @ topic_text t @ ''\": '' @ e)]
   \<and> calls (saveContentMutation_settle (Inl e) t (modalContent s) (handleSaveModalContent s)) =
        calls (handleSaveModalContent s)"
  by (simp add: handleSaveModalContent_def add_toast_def add_call_def Let_def truthy_id_def
        saveContentMutation_mutate_def saveContent_mutationFn_def saveContentMutation_settle_def
        saveContent_onError_def)

text \<open>Witness of C8: the draft of \<open>Intro\<close>, topic id 7, and a network error.\<close>

theorem failed_save_keeps_draft_witness:
  "calls (handleSaveModalContent (session_editing (topic_with_id 7 ''Intro''))) =
     [SaveDocumentContentAPI (Some ''doc1'') 7 ''Edited'']
   \<and> generatedContent
        (saveContentMutation_settle (Inl ''Network Error'') (topic_with_id 7 ''Intro'') ''Edited''
           (handleSaveModalContent (session_editing (topic_with_id 7 ''Intro'')))) ''Intro''
       = Some ''Edited''
   \<and> generatedContentCache
        (saveContentMutation_settle (Inl ''Network Error'') (topic_with_id 7 ''Intro'') ''Edited''
           (handleSaveModalContent (session_editing (topic_with_id 7 ''Intro''))))
        (Some ''doc1'', ''tplA'', ''Intro'') = Some ''Edited''
   \<and> toasts
        (saveContentMutation_settle (Inl ''Network Error'') (topic_with_id 7 ''Intro'') ''Edited''
           (handleSaveModalContent (session_editing (topic_with_id 7 ''Intro'')))) =
       [ToastError ''Failed to save content for \"Intro\": Network Error'']"
proof -
  have h: "currentTopicForModal (session_editing (topic_with_id 7 ''Intro''))
             = Some (topic_with_id 7 ''Intro'')"
    "truthy_docId (docId (session_editing (topic_with_id 7 ''Intro'')))"
    "topic_id (topic_with_id 7 ''Intro'') = Some 7" "(7::int) \<noteq> 0"
    by (simp_all add: session_editing_def session_topics_def session0_def topic_with_id_def
          topic_named_def truthy_docId_def)
  show ?thesis
    using failed_save_keeps_draft [OF h, of "''Network Error''"]
    by (simp add: session_editing_def session_topics_def session0_def topic_with_id_def
          topic_named_def)
qed

text \<open>
  C9. For an open draft whose topic has no server id (\<open>topic.id\<close> is falsy), saving
  writes the draft to the content map and to the query cache, sends no request, and
  reports it with an informational notification, not an error.
\<close>

theorem save_without_id_is_cache_only:
  "currentTopicForModal s = Some t \<Longrightarrow> truthy_docId (docId s) \<Longrightarrow> \<not> truthy_id (topic_id t) \<Longrightarrow>
     calls (handleSaveModalContent s) = calls s
   \<and> generatedContent (handleSaveModalContent s) (topic_text t) = Some (modalContent s)
   \<and> generatedContentCache (handleSaveModalContent s) (docId s, selectedTemplate s, topic_text t)
        = Some (modalContent s)
   \<and> toasts (handleSaveModalContent s) =
        toasts s @ [ToastInfo ''Content saved locally. Topic ID missing for backend save.'']
   \<and> isModalOpen (handleSaveModalContent s) = False"
  by (simp add: handleSaveModalContent_def add_toast_def Let_def)

text \<open>Witness of C9: the draft of \<open>Intro\<close>, a topic without id.\<close>

theorem save_without_id_is_cache_only_witness:
  "calls (handleSaveModalContent (session_editing (topic_named ''Intro''))) = []
   \<and> generatedContent (handleSaveModalContent (session_editing (topic_named ''Intro''))) ''Intro''
       = Some ''Edited''
   \<and> generatedContentCache (handleSaveModalContent (session_editing (topic_named ''Intro'')))
        (Some ''doc1'', ''tplA'', ''Intro'') = Some ''Edited''
   \<and> toasts (handleSaveModalContent (session_editing (topic_named ''Intro''))) =
        [ToastInfo ''Content saved locally. Topic ID missing for backend save.'']"
proof -
  have h: "currentTopicForModal (session_editing (topic_named ''Intro'')) = Some (topic_named ''Intro'')"
    "truthy_docId (docId (session_editing (topic_named ''Intro'')))"
    "\<not> truthy_id (topic_id (topic_named ''Intro''))"
    by (simp_all add: session_editing_def session_topics_def session0_def topic_named_def
          truthy_docId_def truthy_id_def)
  show ?thesis
    using save_without_id_is_cache_only [OF h]
    by (simp add: session_editing_def session_topics_def session0_def topic_named_def)
qed

text \<open>
  C10. When the chat input is empty or only white space, sending does nothing: the state,
  and with it the transcript and the requests sent, is unchanged.
\<close>

theorem blank_chat_message_is_not_sent:
  "\<forall>c \<in> set (currentChatMessage s). isWhiteSpace c \<Longrightarrow>
     handleSendChatMessage s = s \<and> send_chat chat s = s"
  by (simp add: handleSendChatMessage_def send_chat_def trim_empty_iff)

text \<open>Witness of C10: a single space, and the empty input.\<close>

theorem blank_chat_message_is_not_sent_witness:
  "handleSendChatMessage (session_chat\<lparr>currentChatMessage := '' ''\<rparr>) =
     session_chat\<lparr>currentChatMessage := '' ''\<rparr>
   \<and> calls (handleSendChatMessage (session_chat\<lparr>currentChatMessage := []\<rparr>)) = []
   \<and> chatHistory (handleSendChatMessage (session_chat\<lparr>currentChatMessage := []\<rparr>)) =
       chatHistory session_chat"
proof -
  have h1: "\<forall>c \<in> set (currentChatMessage (session_chat\<lparr>currentChatMessage := '' ''\<rparr>)). isWhiteSpace c"
    by (simp add: isWhiteSpace_def)
  have h2: "\<forall>c \<in> set (currentChatMessage (session_chat\<lparr>currentChatMessage := []\<rparr>)). isWhiteSpace c"
    by simp
  show ?thesis
    using blank_chat_message_is_not_sent [OF h1] blank_chat_message_is_not_sent [OF h2]
    by (simp add: session_chat_def session_topics_def session0_def)
qed

end
